theory Spec2Isabelle
  imports Complex_Main "HOL-Library.AList"
begin

section \<open>JavaScript and Java numbers\<close>

text \<open>
  The TypeScript services and the native modules compute with IEEE doubles and floats.
  They are modelled by real numbers extended with the three special values an
  operation of the program can produce. Rounding is not modelled (the arithmetic is
  exact), the two signed zeros are identified, and a zero divisor is taken as \<open>+0\<close>:
  the only divisors of the program are an array length and a product of square roots.
\<close>

datatype jsnum = Num real | PInf | NInf | NaN

fun jsadd :: "jsnum \<Rightarrow> jsnum \<Rightarrow> jsnum" where
  "jsadd (Num a) (Num b) = Num (a + b)"
| "jsadd NaN _ = NaN"
| "jsadd _ NaN = NaN"
| "jsadd PInf NInf = NaN"
| "jsadd NInf PInf = NaN"
| "jsadd PInf _ = PInf"
| "jsadd _ PInf = PInf"
| "jsadd NInf _ = NInf"
| "jsadd _ NInf = NInf"

fun jsmul :: "jsnum \<Rightarrow> jsnum \<Rightarrow> jsnum" where
  "jsmul (Num a) (Num b) = Num (a * b)"
| "jsmul NaN _ = NaN"
| "jsmul _ NaN = NaN"
| "jsmul PInf (Num b) = (if b = 0 then NaN else if 0 < b then PInf else NInf)"
| "jsmul NInf (Num b) = (if b = 0 then NaN else if 0 < b then NInf else PInf)"
| "jsmul (Num a) PInf = (if a = 0 then NaN else if 0 < a then PInf else NInf)"
| "jsmul (Num a) NInf = (if a = 0 then NaN else if 0 < a then NInf else PInf)"
| "jsmul PInf PInf = PInf"
| "jsmul PInf NInf = NInf"
| "jsmul NInf PInf = NInf"
| "jsmul NInf NInf = PInf"

fun jsdiv :: "jsnum \<Rightarrow> jsnum \<Rightarrow> jsnum" where
  "jsdiv (Num a) (Num b) =
     (if b \<noteq> 0 then Num (a / b) else if a = 0 then NaN else if 0 < a then PInf else NInf)"
| "jsdiv NaN _ = NaN"
| "jsdiv _ NaN = NaN"
| "jsdiv (Num a) PInf = Num 0"
| "jsdiv (Num a) NInf = Num 0"
| "jsdiv PInf (Num b) = (if 0 \<le> b then PInf else NInf)"
| "jsdiv NInf (Num b) = (if 0 \<le> b then NInf else PInf)"
| "jsdiv PInf PInf = NaN"
| "jsdiv PInf NInf = NaN"
| "jsdiv NInf PInf = NaN"
| "jsdiv NInf NInf = NaN"

fun jssqrt :: "jsnum \<Rightarrow> jsnum" where
  "jssqrt (Num a) = (if a < 0 then NaN else Num (sqrt a))"
| "jssqrt PInf = PInf"
| "jssqrt NInf = NaN"
| "jssqrt NaN = NaN"

text \<open>
  Reading \<open>embedding[i]\<close> past the end of a JavaScript array gives \<open>undefined\<close>, and
  \<open>x += undefined\<close> makes \<open>x\<close> NaN. The arrays of the program hold numbers only, so
  an indexed read that is used as a summand is a number or NaN.
\<close>

definition js_index :: "jsnum list \<Rightarrow> nat \<Rightarrow> jsnum" where
  "js_index xs i = (if i < length xs then xs ! i else NaN)"

section \<open>Errors\<close>

text \<open>
  A thrown JavaScript \<open>Error\<close> carries its message; a rejected native promise carries
  the code and the message given to \<open>promise.reject\<close>; a property read on
  \<open>undefined\<close> is a \<open>TypeError\<close>.
\<close>

datatype error = Error string | NativeReject string string | TypeError

section \<open>Data model of the voice cloning service\<close>

datatype emotion = neutral | happy | sad | angry | excited | calm

datatype quality = low | medium | high | ultra

record VoiceCharacteristics =
  pitch :: real
  speed :: real
  emotion :: emotion
  accent :: "string option"
  age :: "string option"
  gender :: "string option"

text \<open>The object literal that \<open>createVoiceProfile\<close> builds and stores.\<close>

record VoiceProfile =
  profile_id :: string
  name :: string
  audioSamples :: "string list"
  embeddings :: "jsnum list"
  characteristics :: VoiceCharacteristics
  createdAt :: nat
  isActive :: bool
  quality :: quality

record VoiceCloneResult =
  audioPath :: string
  similarity :: jsnum
  duration :: jsnum
  applied_characteristics :: VoiceCharacteristics

record VoiceSynthesisOptions =
  language :: string
  opt_characteristics :: "VoiceCharacteristics option"
  opt_quality :: "quality option"
  realTime :: "bool option"

text \<open>
  An entry of \<open>synthesisQueue\<close>. The pair of callbacks \<open>resolve\<close>/\<open>reject\<close> belongs to
  one promise; \<open>promise\<close> is the number of that promise.
\<close>

record request =
  text_of :: string
  profileId :: string
  options :: VoiceSynthesisOptions
  promise :: nat

text \<open>
  The fields of \<open>VoiceCloningService\<close>. \<open>voiceProfiles\<close> is a JavaScript \<open>Map\<close>: an
  association list in insertion order, read with \<open>map_of\<close>, written with
  \<open>AList.update\<close> (replace in place, or append) and \<open>AList.delete\<close>.

  Three fields record what the JavaScript runtime holds and the class does not:
  \<open>inFlight\<close> are the calls of \<open>performVoiceSynthesis\<close> that a worker awaits, each
  with the profile object it read when it started; \<open>settled\<close> are the promises
  resolved or rejected so far, oldest first, each with its outcome; \<open>nextPromise\<close>
  numbers the promises created by \<open>synthesizeVoiceWithCloning\<close>.
\<close>

record service =
  isInitialized :: bool
  voiceProfiles :: "(string \<times> VoiceProfile) list"
  synthesisQueue :: "request list"
  isProcessing :: bool
  inFlight :: "(request \<times> VoiceProfile option) list"
  settled :: "(nat \<times> (error + VoiceCloneResult)) list"
  nextPromise :: nat

definition new_service :: service where
  "new_service = \<lparr> isInitialized = False, voiceProfiles = [], synthesisQueue = [],
     isProcessing = False, inFlight = [], settled = [], nextPromise = 0 \<rparr>"

section \<open>The native voice cloning module\<close>

text \<open>
  The fields of the native \<open>VoiceCloningModule\<close> that the profile operations use. The
  Android and the iOS module agree on everything modelled here. The conversion of the
  embedding from double to float and back is taken as the identity.
\<close>

record native_profile =
  np_name :: string
  np_embeddings :: "jsnum list"
  np_audioSamples :: "string list"

record native_module =
  native_isInitialized :: bool
  native_voiceProfiles :: "(string \<times> native_profile) list"

text \<open>
  \<open>createVoiceProfile\<close> of the module. \<open>millis\<close> is the decimal rendering of the
  clock that names the profile.
\<close>

definition native_createVoiceProfile ::
  "native_module \<Rightarrow> string \<Rightarrow> string \<Rightarrow> string list \<Rightarrow> jsnum list
     \<Rightarrow> (error + string \<times> jsnum list) \<times> native_module" where
  "native_createVoiceProfile nm millis profileName samples embs =
     (if \<not> native_isInitialized nm
      then (Inl (NativeReject ''NOT_INITIALIZED'' ''Voice cloning not initialized''), nm)
      else
        let newId = ''profile_'' @ millis;
            profile = \<lparr> np_name = profileName, np_embeddings = embs, np_audioSamples = samples \<rparr>
        in (Inr (newId, embs),
            nm\<lparr>native_voiceProfiles := AList.update newId profile (native_voiceProfiles nm)\<rparr>))"

definition native_cleanupVoiceProfile ::
  "native_module \<Rightarrow> string \<Rightarrow> (error + unit) \<times> native_module" where
  "native_cleanupVoiceProfile nm pid =
     (Inr (), nm\<lparr>native_voiceProfiles := AList.delete pid (native_voiceProfiles nm)\<rparr>)"

text \<open>
  \<open>calculateCosineSimilarity\<close>: one loop accumulates the dot product and the two
  squared norms.
\<close>

definition cosine_step ::
  "jsnum list \<Rightarrow> jsnum list \<Rightarrow> nat \<Rightarrow> jsnum \<times> jsnum \<times> jsnum \<Rightarrow> jsnum \<times> jsnum \<times> jsnum" where
  "cosine_step vector1 vector2 i acc =
     (case acc of (dotProduct, norm1, norm2) \<Rightarrow>
        (jsadd dotProduct (jsmul (vector1 ! i) (vector2 ! i)),
         jsadd norm1 (jsmul (vector1 ! i) (vector1 ! i)),
         jsadd norm2 (jsmul (vector2 ! i) (vector2 ! i))))"

definition calculateCosineSimilarity :: "jsnum list \<Rightarrow> jsnum list \<Rightarrow> jsnum" where
  "calculateCosineSimilarity vector1 vector2 =
     (if length vector1 \<noteq> length vector2 then Num 0
      else
        case fold (cosine_step vector1 vector2) [0 ..< length vector1] (Num 0, Num 0, Num 0) of
          (dotProduct, norm1, norm2) \<Rightarrow> jsdiv dotProduct (jsmul (jssqrt norm1) (jssqrt norm2)))"

definition native_compareVoiceProfiles :: "native_module \<Rightarrow> string \<Rightarrow> string \<Rightarrow> error + jsnum" where
  "native_compareVoiceProfiles nm pid1 pid2 =
     (case (map_of (native_voiceProfiles nm) pid1, map_of (native_voiceProfiles nm) pid2) of
        (Some profile1, Some profile2) \<Rightarrow>
          Inr (calculateCosineSimilarity (np_embeddings profile1) (np_embeddings profile2))
      | _ \<Rightarrow> Inl (NativeReject ''PROFILE_NOT_FOUND'' ''One or both profiles not found''))"

section \<open>Profile operations of the service\<close>

text \<open>
  \<open>averageEmbeddings\<close>. The outer loop runs over the embeddings, the inner one over the
  indices below the length of the first embedding; the last loop divides by the number
  of embeddings.
\<close>

definition add_embedding :: "nat \<Rightarrow> jsnum list \<Rightarrow> jsnum list \<Rightarrow> jsnum list" where
  "add_embedding embeddingSize embedding avgEmbedding =
     fold (\<lambda>i avg. avg[i := jsadd (avg ! i) (js_index embedding i)]) [0 ..< embeddingSize] avgEmbedding"

definition averageEmbeddings :: "jsnum list list \<Rightarrow> jsnum list" where
  "averageEmbeddings embs =
     (case embs of
        [] \<Rightarrow> []
      | first # _ \<Rightarrow>
          let embeddingSize = length first;
              avgEmbedding = fold (add_embedding embeddingSize) embs (replicate embeddingSize (Num 0))
          in fold (\<lambda>i avg. avg[i := jsdiv (avg ! i) (Num (real (length embs)))])
               [0 ..< embeddingSize] avgEmbedding)"

text \<open>
  The loop of \<open>createVoiceProfile\<close> that extracts one embedding per sample; the first
  rejection of the extractor ends it. The extractor is the speaker encoder of the
  native module, an opaque capability.
\<close>

fun extract_all :: "(string \<Rightarrow> error + jsnum list) \<Rightarrow> string list \<Rightarrow> error + jsnum list list" where
  "extract_all extract [] = Inr []"
| "extract_all extract (samplePath # rest) =
     (case extract samplePath of
        Inl e \<Rightarrow> Inl e
      | Inr embedding \<Rightarrow>
          (case extract_all extract rest of
             Inl e \<Rightarrow> Inl e
           | Inr es \<Rightarrow> Inr (embedding # es)))"

definition default_characteristics :: VoiceCharacteristics where
  "default_characteristics =
     \<lparr> pitch = 0, speed = 1, emotion = neutral, accent = None, age = None, gender = None \<rparr>"

text \<open>
  \<open>createVoiceProfile\<close>. \<open>now\<close> is the value of \<open>new Date()\<close>. \<open>saveVoiceProfiles\<close>
  catches its own errors and does not touch the fields of the service, so it is left
  out here and below.
\<close>

definition createVoiceProfile ::
  "(string \<Rightarrow> error + jsnum list) \<Rightarrow> string \<Rightarrow> nat \<Rightarrow> service \<Rightarrow> native_module \<Rightarrow> string \<Rightarrow> string list
     \<Rightarrow> VoiceCharacteristics option \<Rightarrow> (error + VoiceProfile) \<times> service \<times> native_module" where
  "createVoiceProfile extract millis now s nm profileName samples chars =
     (if \<not> isInitialized s then (Inl (Error ''Voice cloning not initialized''), s, nm)
      else
        case extract_all extract samples of
          Inl e \<Rightarrow> (Inl e, s, nm)
        | Inr embs \<Rightarrow>
            let avgEmbeddings = averageEmbeddings embs in
            (case native_createVoiceProfile nm millis profileName samples avgEmbeddings of
               (Inl e, nm') \<Rightarrow> (Inl e, s, nm')
             | (Inr (resultId, resultEmbeddings), nm') \<Rightarrow>
                 let voiceProfile =
                       \<lparr> profile_id = resultId, name = profileName, audioSamples = samples,
                         embeddings = resultEmbeddings,
                         characteristics = (case chars of Some c \<Rightarrow> c | None \<Rightarrow> default_characteristics),
                         createdAt = now, isActive = False, quality = high \<rparr>
                 in (Inr voiceProfile,
                     s\<lparr>voiceProfiles := AList.update resultId voiceProfile (voiceProfiles s)\<rparr>,
                     nm')))"

definition deleteVoiceProfile ::
  "service \<Rightarrow> native_module \<Rightarrow> string \<Rightarrow> (error + unit) \<times> service \<times> native_module" where
  "deleteVoiceProfile s nm pid =
     (case native_cleanupVoiceProfile nm pid of
        (Inl e, nm') \<Rightarrow> (Inl e, s, nm')
      | (Inr _, nm') \<Rightarrow> (Inr (), s\<lparr>voiceProfiles := AList.delete pid (voiceProfiles s)\<rparr>, nm'))"

text \<open>
  \<open>setActiveProfile\<close>: the first loop clears the flag of every stored profile, then
  the profile found under the id, if any, gets the flag. The function has no
  \<open>throw\<close> and no \<open>try\<close>.
\<close>

definition deactivate_all :: "(string \<times> VoiceProfile) list \<Rightarrow> (string \<times> VoiceProfile) list" where
  "deactivate_all ps = AList.map_ran (\<lambda>_ p. p\<lparr>isActive := False\<rparr>) ps"

definition setActiveProfile :: "service \<Rightarrow> string \<Rightarrow> (error + unit) \<times> service" where
  "setActiveProfile s pid =
     (let ps = deactivate_all (voiceProfiles s) in
      case map_of ps pid of
        Some _ \<Rightarrow> (Inr (), s\<lparr>voiceProfiles := AList.map_entry pid (\<lambda>p. p\<lparr>isActive := True\<rparr>) ps\<rparr>)
      | None \<Rightarrow> (Inr (), s\<lparr>voiceProfiles := ps\<rparr>))"

text \<open>
  \<open>saveVoiceProfiles\<close> writes the values of the map, in their order, and
  \<open>loadVoiceProfiles\<close>, which the constructor starts, sets every profile of the file
  under its id. The file is \<open>None\<close> when it does not exist or cannot be read.
\<close>

definition saved_profiles :: "service \<Rightarrow> VoiceProfile list" where
  "saved_profiles s = map snd (voiceProfiles s)"

definition loadVoiceProfiles :: "service \<Rightarrow> VoiceProfile list option \<Rightarrow> service" where
  "loadVoiceProfiles s file =
     (case file of
        None \<Rightarrow> s
      | Some profiles \<Rightarrow>
          s\<lparr>voiceProfiles := fold (\<lambda>p ps. AList.update (profile_id p) p ps) profiles (voiceProfiles s)\<rparr>)"

definition active_profiles :: "service \<Rightarrow> string list" where
  "active_profiles s = map fst (filter (\<lambda>kp. isActive (snd kp)) (voiceProfiles s))"

definition at_most_one_active :: "service \<Rightarrow> bool" where
  "at_most_one_active s = (length (active_profiles s) \<le> 1)"

section \<open>The synthesis queue\<close>

text \<open>
  The three native calls of \<open>performVoiceSynthesis\<close> are opaque capabilities: each
  resolves with a value or rejects with an error.
\<close>

record synth_ops =
  synthesizeVoice :: "string \<Rightarrow> string \<Rightarrow> string \<Rightarrow> emotion option \<Rightarrow> error + string \<times> jsnum"
  adjustVoiceCharacteristics :: "string \<Rightarrow> real \<Rightarrow> real \<Rightarrow> emotion \<Rightarrow> error + string"
  enhanceAudioQuality :: "string \<Rightarrow> error + string"

text \<open>
  \<open>performVoiceSynthesis\<close>. \<open>profile\<close> is what \<open>this.voiceProfiles.get(profileId)\<close>
  gave when the call started; the non-null assertion of the source does nothing at run
  time, so reading \<open>profile.characteristics\<close> of a missing profile throws.
\<close>

definition performVoiceSynthesis ::
  "synth_ops \<Rightarrow> VoiceProfile option \<Rightarrow> string \<Rightarrow> string \<Rightarrow> VoiceSynthesisOptions
     \<Rightarrow> error + VoiceCloneResult" where
  "performVoiceSynthesis ops profile txt pid opts =
     (case synthesizeVoice ops txt pid (language opts) (map_option emotion (opt_characteristics opts)) of
        Inl e \<Rightarrow> Inl e
      | Inr (synthPath, synthDuration) \<Rightarrow>
          (case (case opt_characteristics opts of
                   None \<Rightarrow> Inr synthPath
                 | Some c \<Rightarrow> adjustVoiceCharacteristics ops synthPath (pitch c) (speed c) (emotion c)) of
             Inl e \<Rightarrow> Inl e
           | Inr adjustedPath \<Rightarrow>
               (case (if opt_quality opts = Some ultra \<or> opt_quality opts = Some high
                      then enhanceAudioQuality ops adjustedPath else Inr adjustedPath) of
                  Inl e \<Rightarrow> Inl e
                | Inr finalAudioPath \<Rightarrow>
                    (case opt_characteristics opts of
                       Some c \<Rightarrow>
                         Inr \<lparr> audioPath = finalAudioPath, similarity = Num (95 / 100),
                               duration = synthDuration, applied_characteristics = c \<rparr>
                     | None \<Rightarrow>
                         (case profile of
                            None \<Rightarrow> Inl TypeError
                          | Some p \<Rightarrow>
                              Inr \<lparr> audioPath = finalAudioPath, similarity = Num (95 / 100),
                                    duration = synthDuration,
                                    applied_characteristics = characteristics p \<rparr>)))))"

text \<open>
  The \<open>while\<close> loop of \<open>processSynthesisQueue\<close> from its head to the next \<open>await\<close>:
  with a request left, it is shifted off the queue and \<open>performVoiceSynthesis\<close> starts
  for it; with none left, the loop ends and \<open>finally\<close> clears \<open>isProcessing\<close>.
\<close>

definition worker_continue :: "service \<Rightarrow> service" where
  "worker_continue s =
     (case synthesisQueue s of
        [] \<Rightarrow> s\<lparr>isProcessing := False\<rparr>
      | r # rest \<Rightarrow>
          s\<lparr>synthesisQueue := rest,
            inFlight := inFlight s @ [(r, map_of (voiceProfiles s) (profileId r))]\<rparr>)"

definition processSynthesisQueue :: "service \<Rightarrow> service" where
  "processSynthesisQueue s =
     (if isProcessing s \<or> length (synthesisQueue s) = 0 then s
      else worker_continue (s\<lparr>isProcessing := True\<rparr>))"

text \<open>
  \<open>synthesizeVoiceWithCloning\<close> up to the point where it returns its promise: \<open>Inl\<close> is
  a promise rejected at once by one of the two checks, \<open>Inr p\<close> the pending promise
  \<open>p\<close> of a request pushed onto the queue.
\<close>

definition synthesizeVoiceWithCloning ::
  "service \<Rightarrow> string \<Rightarrow> string \<Rightarrow> VoiceSynthesisOptions \<Rightarrow> (error + nat) \<times> service" where
  "synthesizeVoiceWithCloning s txt pid opts =
     (if \<not> isInitialized s then (Inl (Error ''Voice cloning not initialized''), s)
      else
        case map_of (voiceProfiles s) pid of
          None \<Rightarrow> (Inl (Error (''Voice profile '' @ pid @ '' not found'')), s)
        | Some _ \<Rightarrow>
            let p = nextPromise s;
                r = \<lparr> text_of = txt, profileId = pid, options = opts, promise = p \<rparr>
            in (Inr p,
                processSynthesisQueue
                  (s\<lparr>synthesisQueue := synthesisQueue s @ [r], nextPromise := Suc p\<rparr>)))"

text \<open>
  The worker resumes when the call of \<open>performVoiceSynthesis\<close> it awaits, the \<open>i\<close>-th
  in flight, has finished: it resolves or rejects the promise of the request and goes
  on with the loop. \<open>ops\<close> is how the native module answered during this call.
\<close>

definition synthesis_done :: "synth_ops \<Rightarrow> nat \<Rightarrow> service \<Rightarrow> service" where
  "synthesis_done ops i s =
     (if i < length (inFlight s) then
        case inFlight s ! i of
          (r, profile) \<Rightarrow>
            worker_continue
              (s\<lparr>inFlight := take i (inFlight s) @ drop (Suc i) (inFlight s),
                 settled := settled s @
                   [(promise r, performVoiceSynthesis ops profile (text_of r) (profileId r) (options r))]\<rparr>)
      else s)"

datatype event = Submit string string VoiceSynthesisOptions | Done synth_ops nat

fun step :: "service \<Rightarrow> event \<Rightarrow> service" where
  "step s (Submit txt pid opts) = snd (synthesizeVoiceWithCloning s txt pid opts)"
| "step s (Done ops i) = synthesis_done ops i s"

definition run :: "event list \<Rightarrow> service \<Rightarrow> service" where
  "run evs s = foldl step s evs"

text \<open>
  The requests not yet settled, oldest first, each with the profile object its
  synthesis reads, and the outcome of each when the native module answers the \<open>k\<close>-th
  of them as \<open>opss ! k\<close>.
\<close>

definition pending :: "service \<Rightarrow> (request \<times> VoiceProfile option) list" where
  "pending s = inFlight s @ map (\<lambda>r. (r, map_of (voiceProfiles s) (profileId r))) (synthesisQueue s)"

definition outcome_of :: "synth_ops \<Rightarrow> request \<times> VoiceProfile option \<Rightarrow> nat \<times> (error + VoiceCloneResult)" where
  "outcome_of ops rp =
     (promise (fst rp),
      performVoiceSynthesis ops (snd rp) (text_of (fst rp)) (profileId (fst rp)) (options (fst rp)))"

definition idle_service :: "bool \<Rightarrow> (string \<times> VoiceProfile) list \<Rightarrow> service" where
  "idle_service init ps = new_service\<lparr>isInitialized := init, voiceProfiles := ps\<rparr>"

section \<open>Comparing two voices\<close>

text \<open>
  \<open>compareVoices\<close>: the body of the \<open>try\<close> throws when the service is not
  initialised or the native promise rejects; \<open>catch\<close> turns every error into 0.
\<close>

definition compareVoices :: "service \<Rightarrow> native_module \<Rightarrow> string \<Rightarrow> string \<Rightarrow> error + jsnum" where
  "compareVoices s nm pid1 pid2 =
     (case (if \<not> isInitialized s then Inl (Error ''Voice cloning not initialized'')
            else native_compareVoiceProfiles nm pid1 pid2) of
        Inl e \<Rightarrow> Inr (Num 0)
      | Inr sim \<Rightarrow> Inr sim)"

text \<open>
  The cosine similarity and the element-wise mean as the specification words them,
  over the reals, to compare the program with.
\<close>

definition dot_product :: "real list \<Rightarrow> real list \<Rightarrow> real" where
  "dot_product a b = (\<Sum>i = 0 ..< length a. a ! i * b ! i)"

definition euclidean_norm :: "real list \<Rightarrow> real" where
  "euclidean_norm a = sqrt (dot_product a a)"

definition cosine_similarity :: "real list \<Rightarrow> real list \<Rightarrow> real" where
  "cosine_similarity a b = dot_product a b / (euclidean_norm a * euclidean_norm b)"

definition elementwise_mean :: "real list list \<Rightarrow> nat \<Rightarrow> real" where
  "elementwise_mean vs i = (\<Sum>v \<leftarrow> vs. v ! i) / real (length vs)"

text \<open>
  The same mean in the arithmetic of the program: the \<open>i\<close>-th entries are added from
  left to right, starting from 0, and the sum is divided by the number of vectors.
\<close>

definition js_mean :: "jsnum list list \<Rightarrow> nat \<Rightarrow> jsnum" where
  "js_mean embs i =
     jsdiv (foldl jsadd (Num 0) (map (\<lambda>e. js_index e i) embs)) (Num (real (length embs)))"

section \<open>Temporary files and the real-time cycles\<close>

text \<open>
  The file system seen through \<open>react-native-fs\<close>: paths with their contents.
  \<open>unlink\<close> and \<open>readFile\<close> reject when the path does not exist.
\<close>

type_synonym fs = "(string \<times> string) list"

definition writeFile :: "fs \<Rightarrow> string \<Rightarrow> string \<Rightarrow> error + fs" where
  "writeFile files path contents = Inr (AList.update path contents files)"

definition unlink :: "fs \<Rightarrow> string \<Rightarrow> error + fs" where
  "unlink files path =
     (case map_of files path of
        None \<Rightarrow> Inl (Error ''File does not exist'')
      | Some _ \<Rightarrow> Inr (AList.delete path files))"

definition readFile :: "fs \<Rightarrow> string \<Rightarrow> error + string" where
  "readFile files path =
     (case map_of files path of
        None \<Rightarrow> Inl (Error ''File does not exist'')
      | Some contents \<Rightarrow> Inr contents)"

definition copyFile :: "fs \<Rightarrow> string \<Rightarrow> string \<Rightarrow> error + fs" where
  "copyFile files src dest =
     (case map_of files src of
        None \<Rightarrow> Inl (Error ''File does not exist'')
      | Some contents \<Rightarrow> Inr (AList.update dest contents files))"

definition file_exists :: "fs \<Rightarrow> string \<Rightarrow> bool" where
  "file_exists files path = (map_of files path \<noteq> None)"

record AudioChunk =
  chunk_id :: string
  chunk_data :: string
  chunk_timestamp :: nat
  chunk_duration :: nat

text \<open>
  A value read from an object literal by a computed key: a string of the literal, or
  the member of that name which every object inherits from \<open>Object.prototype\<close>. The
  inherited members are functions or objects, so all of them are truthy.
\<close>

datatype jsval = Str string | Inherited string

definition object_prototype_names :: "string list" where
  "object_prototype_names =
     [''constructor'', ''__proto__'', ''__defineGetter__'', ''__defineSetter__'',
      ''__lookupGetter__'', ''__lookupSetter__'', ''hasOwnProperty'', ''isPrototypeOf'',
      ''propertyIsEnumerable'', ''toLocaleString'', ''toString'', ''valueOf'']"

text \<open>\<open>table[key] || fallback\<close> for a table of strings.\<close>

definition lookup_or :: "(string \<times> string) list \<Rightarrow> string \<Rightarrow> string \<Rightarrow> jsval" where
  "lookup_or table key fallback =
     (case map_of table key of
        Some v \<Rightarrow> (if v = [] then Str fallback else Str v)
      | None \<Rightarrow> if key \<in> set object_prototype_names then Inherited key else Str fallback)"

record TranslationResult =
  originalText :: string
  translatedText :: jsval
  sourceLanguage :: string
  targetLanguage :: string
  confidence :: real
  timestamp :: nat

definition SEAMLESS_LANGUAGE_MAP :: "(string \<times> string) list" where
  "SEAMLESS_LANGUAGE_MAP =
     [(''en'', ''eng''), (''es'', ''spa''), (''fr'', ''fra''), (''de'', ''deu''), (''it'', ''ita''),
      (''pt'', ''por''), (''ru'', ''rus''), (''zh'', ''cmn''), (''ja'', ''jpn''), (''ko'', ''kor''),
      (''ar'', ''arb''), (''hi'', ''hin''), (''tr'', ''tur''), (''pl'', ''pol''), (''nl'', ''nld''),
      (''sv'', ''swe''), (''da'', ''dan''), (''no'', ''nor''), (''fi'', ''fin''), (''cs'', ''ces''),
      (''hu'', ''hun''), (''ro'', ''ron''), (''bg'', ''bul''), (''hr'', ''hrv''), (''sk'', ''slk''),
      (''sl'', ''slv''), (''et'', ''est''), (''lv'', ''lav''), (''lt'', ''lit''), (''mt'', ''mlt''),
      (''ga'', ''gle''), (''cy'', ''cym'')]"

definition mapLanguageCode :: "string \<Rightarrow> jsval" where
  "mapLanguageCode languageCode = lookup_or SEAMLESS_LANGUAGE_MAP languageCode languageCode"

text \<open>
  \<open>SeamlessM4TService\<close> with the flag of its native module. The model behind the
  native \<open>translateSpeechToSpeech\<close> is an opaque capability \<open>model\<close>: given the files,
  the audio path and the two language codes it rejects, or resolves with the path of
  the translated audio and the translated text, having written what it wrote. The
  native method rejects before it reaches the model when no model is loaded.
\<close>

record seamless =
  sm_isInitialized :: bool
  sm_isModelLoaded :: bool

type_synonym seamless_model = "fs \<Rightarrow> string \<Rightarrow> jsval \<Rightarrow> jsval \<Rightarrow> error + (string \<times> string) \<times> fs"

definition native_translateSpeechToSpeech ::
  "seamless \<Rightarrow> seamless_model \<Rightarrow> fs \<Rightarrow> string \<Rightarrow> jsval \<Rightarrow> jsval \<Rightarrow> error + (string \<times> string) \<times> fs" where
  "native_translateSpeechToSpeech sm model files path sourceLang targetLang =
     (if \<not> sm_isModelLoaded sm then Inl (NativeReject ''MODEL_NOT_LOADED'' ''Model not loaded'')
      else model files path sourceLang targetLang)"

definition isReady :: "seamless \<Rightarrow> bool" where
  "isReady sm = (if \<not> sm_isInitialized sm then False else sm_isModelLoaded sm)"

definition translateSpeechToSpeech ::
  "seamless \<Rightarrow> seamless_model \<Rightarrow> nat \<Rightarrow> fs \<Rightarrow> string \<Rightarrow> string \<Rightarrow> string
     \<Rightarrow> error + (string \<times> TranslationResult) \<times> fs" where
  "translateSpeechToSpeech sm model now files path src tgt =
     (if \<not> sm_isInitialized sm then Inl (Error ''SeamlessM4T not initialized'')
      else
        case native_translateSpeechToSpeech sm model files path (mapLanguageCode src) (mapLanguageCode tgt) of
          Inl e \<Rightarrow> Inl e
        | Inr ((resultPath, resultText), files') \<Rightarrow>
            Inr ((resultPath,
                  \<lparr> originalText = [], translatedText = Str resultText, sourceLanguage = src,
                    targetLanguage = tgt, confidence = 95 / 100, timestamp = now \<rparr>),
                 files'))"

text \<open>
  \<open>SeamlessM4TService.processRealTimeAudio\<close>. \<open>tmp\<close> is
  \<open>RNFS.TemporaryDirectoryPath\<close>. The result is \<open>None\<close> for \<open>null\<close>; the files are
  returned as the call leaves them.
\<close>

definition temp_audio_path :: "string \<Rightarrow> AudioChunk \<Rightarrow> string" where
  "temp_audio_path tmp chunk = tmp @ ''/temp_audio_'' @ chunk_id chunk @ ''.wav''"

definition processRealTimeAudio ::
  "seamless \<Rightarrow> seamless_model \<Rightarrow> nat \<Rightarrow> string \<Rightarrow> fs \<Rightarrow> AudioChunk \<Rightarrow> string \<Rightarrow> string
     \<Rightarrow> (string \<times> TranslationResult) option \<times> fs" where
  "processRealTimeAudio sm model now tmp files chunk src tgt =
     (let tempAudioPath = temp_audio_path tmp chunk in
      case writeFile files tempAudioPath (chunk_data chunk) of
        Inl e \<Rightarrow> (None, files)
      | Inr files1 \<Rightarrow>
          (case translateSpeechToSpeech sm model now files1 tempAudioPath src tgt of
             Inl e \<Rightarrow> (None, files1)
           | Inr ((resultPath, translationResult), files2) \<Rightarrow>
               (case unlink files2 tempAudioPath of
                  Inl e \<Rightarrow> (None, files2)
                | Inr files3 \<Rightarrow>
                    (case readFile files3 resultPath of
                       Inl e \<Rightarrow> (None, files3)
                     | Inr translatedAudioBase64 \<Rightarrow>
                         (Some (translatedAudioBase64, translationResult), files3)))))"

text \<open>
  \<open>cloneVoiceFromSample\<close> of the voice cloning service, called without
  characteristics as the real-time cycle does. The native call is an opaque
  capability that rejects, or resolves with the path of the cloned audio and a
  similarity, having written what it wrote.
\<close>

type_synonym clone_model = "fs \<Rightarrow> string \<Rightarrow> string \<Rightarrow> string \<Rightarrow> error + (string \<times> jsnum) \<times> fs"

definition cloneVoiceFromSample ::
  "service \<Rightarrow> clone_model \<Rightarrow> fs \<Rightarrow> string \<Rightarrow> string \<Rightarrow> string \<Rightarrow> error + VoiceCloneResult \<times> fs" where
  "cloneVoiceFromSample s clone files sourcePath targetText lang =
     (if \<not> isInitialized s then Inl (Error ''Voice cloning not initialized'')
      else
        case clone files sourcePath targetText lang of
          Inl e \<Rightarrow> Inl e
        | Inr ((clonedPath, sim), files') \<Rightarrow>
            Inr (\<lparr> audioPath = clonedPath, similarity = sim, duration = Num 0,
                    applied_characteristics = default_characteristics \<rparr>, files'))"

text \<open>
  \<open>processRealTimeVoiceCloning\<close>. With a profile id the cycle awaits the promise of
  \<open>synthesizeVoiceWithCloning\<close>; \<open>await_promise\<close> gives how the queue settles that
  promise and the files as the synthesis left them. An empty profile id is falsy and
  takes the branch without profile.
\<close>

definition temp_voice_path :: "string \<Rightarrow> AudioChunk \<Rightarrow> string" where
  "temp_voice_path tmp chunk = tmp @ ''/temp_voice_'' @ chunk_id chunk @ ''.wav''"

definition processRealTimeVoiceCloning ::
  "clone_model \<Rightarrow> (nat \<Rightarrow> fs \<Rightarrow> error + VoiceCloneResult \<times> fs) \<Rightarrow> string \<Rightarrow> service \<Rightarrow> fs
     \<Rightarrow> AudioChunk \<Rightarrow> string \<Rightarrow> string \<Rightarrow> string option
     \<Rightarrow> (string \<times> jsnum) option \<times> service \<times> fs" where
  "processRealTimeVoiceCloning clone await_promise tmp s files chunk translated targetLang pidopt =
     (if \<not> isInitialized s then (None, s, files)
      else
        let tempAudioPath = temp_voice_path tmp chunk in
        case writeFile files tempAudioPath (chunk_data chunk) of
          Inl e \<Rightarrow> (None, s, files)
        | Inr files1 \<Rightarrow>
            (case (case pidopt of
                     Some pid \<Rightarrow>
                       if pid \<noteq> [] then
                         (case synthesizeVoiceWithCloning s translated pid
                                 \<lparr> language = targetLang, opt_characteristics = None,
                                   opt_quality = Some medium, realTime = Some True \<rparr> of
                            (Inl e, s') \<Rightarrow> (Inl e, s')
                          | (Inr p, s') \<Rightarrow> (await_promise p files1, s'))
                       else (cloneVoiceFromSample s clone files1 tempAudioPath translated targetLang, s)
                   | None \<Rightarrow> (cloneVoiceFromSample s clone files1 tempAudioPath translated targetLang, s)) of
               (Inl e, s') \<Rightarrow> (None, s', files1)
             | (Inr (result, files2), s') \<Rightarrow>
                 (case readFile files2 (audioPath result) of
                    Inl e \<Rightarrow> (None, s', files2)
                  | Inr clonedAudioBase64 \<Rightarrow>
                      (case unlink files2 tempAudioPath of
                         Inl e \<Rightarrow> (None, s', files2)
                       | Inr files3 \<Rightarrow>
                           (case unlink files3 (audioPath result) of
                              Inl e \<Rightarrow> (None, s', files3)
                            | Inr files4 \<Rightarrow>
                                (Some (clonedAudioBase64, similarity result), s', files4))))))"

section \<open>Text translation with its fallback\<close>

text \<open>
  Strings are byte strings here, so \<open>toLowerCase\<close> is modelled on the ASCII letters
  and leaves every other byte as it is. The accented letters of the table are written
  as their UTF-8 bytes.
\<close>

definition toLowerCase :: "string \<Rightarrow> string" where
  "toLowerCase txt =
     map (\<lambda>c. let n = (of_char c :: nat) in if 65 \<le> n \<and> n \<le> 90 then char_of (n + 32) else c) txt"

definition mockTranslations :: "(string \<times> string) list" where
  "mockTranslations =
     [(''hello'', ''hola''),
      (''goodbye'', ''adi'' @ [CHR 0xC3, CHR 0xB3] @ ''s''),
      (''thank you'', ''gracias''),
      (''how are you'', ''c'' @ [CHR 0xC3, CHR 0xB3] @ ''mo est'' @ [CHR 0xC3, CHR 0xA1] @ ''s''),
      (''good morning'', ''buenos d'' @ [CHR 0xC3, CHR 0xAD] @ ''as'')]"

text \<open>
  \<open>translateWithGoogle\<close>: nothing in its \<open>try\<close> block throws, so it always resolves.
\<close>

definition translateWithGoogle :: "nat \<Rightarrow> string \<Rightarrow> string \<Rightarrow> string \<Rightarrow> error + TranslationResult" where
  "translateWithGoogle now txt src tgt =
     Inr \<lparr> originalText = txt,
           translatedText = lookup_or mockTranslations (toLowerCase txt) (''[Translated: '' @ txt @ '']''),
           sourceLanguage = src, targetLanguage = tgt, confidence = 85 / 100, timestamp = now \<rparr>"

text \<open>
  \<open>translateText\<close>. The primary backend \<open>translateWithOpenAI\<close> is a network call, an
  opaque capability \<open>openai\<close> that resolves with the translated text or rejects.
\<close>

definition translateText ::
  "(string \<Rightarrow> string \<Rightarrow> string \<Rightarrow> error + string) \<Rightarrow> nat \<Rightarrow> string \<Rightarrow> string \<Rightarrow> string
     \<Rightarrow> error + TranslationResult" where
  "translateText openai now txt src tgt =
     (case openai txt src tgt of
        Inr translated \<Rightarrow>
          Inr \<lparr> originalText = txt, translatedText = Str translated, sourceLanguage = src,
                targetLanguage = tgt, confidence = 95 / 100, timestamp = now \<rparr>
      | Inl e \<Rightarrow> translateWithGoogle now txt src tgt)"

section \<open>Voice translation of the voice service\<close>

text \<open>
  The fields of \<open>VoiceService\<close> used below: the processing mode, and the recorder
  with counters of the calls of \<open>startRecorder\<close> and \<open>stopRecorder\<close> that resolved.
\<close>

record voice_service =
  useNativeProcessing :: bool
  vs_isRecording :: bool
  recorder_starts :: nat
  recorder_stops :: nat

text \<open>
  What \<open>translateVoice\<close> resolves with: the result of the on-device backend, or the
  object of \<open>translateVoiceWithAPI\<close>, whose \<open>translationResult\<close> is the whole result of
  \<open>translateSpeechToSpeech\<close> (its audio path and its translation result).
\<close>

datatype voice_translation =
  Direct string TranslationResult
| ViaAPI string string TranslationResult

definition translateVoiceWithAPI ::
  "seamless \<Rightarrow> seamless_model \<Rightarrow> nat \<Rightarrow> string \<Rightarrow> string \<Rightarrow> fs \<Rightarrow> string \<Rightarrow> string \<Rightarrow> string
     \<Rightarrow> error + voice_translation \<times> fs" where
  "translateVoiceWithAPI sm model now docs millis files path src tgt =
     (let translatedAudioPath = docs @ ''/translated_'' @ millis @ ''.m4a'' in
      case translateSpeechToSpeech sm model now files path src tgt of
        Inl e \<Rightarrow> Inl e
      | Inr ((resultPath, translationResult), files1) \<Rightarrow>
          (case copyFile files1 path translatedAudioPath of
             Inl e \<Rightarrow> Inl e
           | Inr files2 \<Rightarrow> Inr (ViaAPI translatedAudioPath resultPath translationResult, files2)))"

definition translateVoice ::
  "voice_service \<Rightarrow> seamless \<Rightarrow> seamless_model \<Rightarrow> nat \<Rightarrow> string \<Rightarrow> string \<Rightarrow> fs \<Rightarrow> string \<Rightarrow> string
     \<Rightarrow> string \<Rightarrow> error + voice_translation \<times> fs" where
  "translateVoice vs sm model now docs millis files path src tgt =
     (if useNativeProcessing vs \<and> isReady sm then
        (case translateSpeechToSpeech sm model now files path src tgt of
           Inl e \<Rightarrow> Inl e
         | Inr ((resultPath, translationResult), files1) \<Rightarrow>
             Inr (Direct resultPath translationResult, files1))
      else translateVoiceWithAPI sm model now docs millis files path src tgt)"

section \<open>The translation loop of the call screen\<close>

text \<open>
  \<open>startRecording\<close> and \<open>stopRecording\<close> of the voice service. \<open>ok\<close> tells whether
  \<open>startRecorder\<close> of the recorder library resolves.
\<close>

definition stopRecording :: "voice_service \<Rightarrow> voice_service" where
  "stopRecording vs =
     (if \<not> vs_isRecording vs then vs
      else vs\<lparr>recorder_stops := Suc (recorder_stops vs), vs_isRecording := False\<rparr>)"

definition startRecording :: "bool \<Rightarrow> voice_service \<Rightarrow> bool \<times> voice_service" where
  "startRecording ok vs =
     (let vs1 = (if vs_isRecording vs then stopRecording vs else vs) in
      if ok then (True, vs1\<lparr>recorder_starts := Suc (recorder_starts vs1), vs_isRecording := True\<rparr>)
      else (False, vs1))"

text \<open>
  The state of one \<open>CallScreen\<close>: the React state variable \<open>isRecording\<close>
  (\<open>cs_isRecording\<close>), the voice service, and the cycles under way: those whose
  three-second timer has not fired yet (\<open>capturing\<close>) and those between the firing of
  the timer and the \<open>finally\<close> of its callback, which stop the recorder, translate and
  speak (\<open>translating\<close>).
\<close>

record call_screen =
  cs_isRecording :: bool
  voice :: voice_service
  capturing :: nat
  translating :: nat

text \<open>
  \<open>CallScreen\<close> is a function component: \<open>const [isRecording, setIsRecording] =
  useState(false)\<close> binds \<open>isRecording\<close> anew in every render, to the value of the
  state at that render, and \<open>startTranslation\<close> with the callback it passes to
  \<open>setInterval\<close> is a closure of the render that made it. \<open>setIsRecording\<close> changes
  the state for the next render, not the binding a closure already holds. So the
  \<open>isRecording\<close> read by \<open>if (isRecording) return\<close> is the first argument below: the
  value at the render whose \<open>startTranslation\<close> installed the timer.
\<close>

definition interval_callback :: "bool \<Rightarrow> bool \<Rightarrow> call_screen \<Rightarrow> call_screen" where
  "interval_callback isRecording ok cs =
     (if isRecording then cs
      else
        let cs1 = cs\<lparr>cs_isRecording := True\<rparr> in
        case startRecording ok (voice cs1) of
          (True, vs) \<Rightarrow> cs1\<lparr>voice := vs, capturing := Suc (capturing cs1)\<rparr>
        | (False, vs) \<Rightarrow> cs1\<lparr>voice := vs, cs_isRecording := False\<rparr>)"

text \<open>
  The callback of \<open>setTimeout\<close> starts by stopping the recorder; its \<open>finally\<close>
  calls \<open>setIsRecording(false)\<close> whether the translation succeeded or not.
\<close>

definition timeout_fired :: "call_screen \<Rightarrow> call_screen" where
  "timeout_fired cs =
     (if capturing cs = 0 then cs
      else cs\<lparr>voice := stopRecording (voice cs), capturing := capturing cs - 1,
              translating := Suc (translating cs)\<rparr>)"

definition cycle_finished :: "call_screen \<Rightarrow> call_screen" where
  "cycle_finished cs =
     (if translating cs = 0 then cs
      else cs\<lparr>cs_isRecording := False, translating := translating cs - 1\<rparr>)"

text \<open>
  The component mounts with \<open>useState(false)\<close>, and the effect of the mount, which
  runs once, calls \<open>startTranslation\<close> of that first render.
\<close>

definition first_render_isRecording :: bool where
  "first_render_isRecording = False"

definition mounted_call_screen :: call_screen where
  "mounted_call_screen =
     \<lparr> cs_isRecording = first_render_isRecording,
       voice = \<lparr> useNativeProcessing = True, vs_isRecording = False, recorder_starts = 0,
                 recorder_stops = 0 \<rparr>,
       capturing = 0, translating = 0 \<rparr>"

datatype call_event = Tick bool | TimeoutFired | CycleFinished

fun call_step :: "call_screen \<Rightarrow> call_event \<Rightarrow> call_screen" where
  "call_step cs (Tick ok) = interval_callback first_render_isRecording ok cs"
| "call_step cs TimeoutFired = timeout_fired cs"
| "call_step cs CycleFinished = cycle_finished cs"

definition call_run :: "call_event list \<Rightarrow> call_screen" where
  "call_run evs = foldl call_step mounted_call_screen evs"

section \<open>Invariants of the synthesis queue\<close>

text \<open>
  What holds of the queue between any two events: the worker is marked as processing
  exactly while a synthesis is in flight, at most one is, requests wait only while the
  worker runs, the promises settled, in flight and queued are the promises created, in
  the order of their creation, and a synthesis in flight reads the stored profile of
  its request.
\<close>

definition queue_inv :: "service \<Rightarrow> bool" where
  "queue_inv s \<longleftrightarrow>
     (isProcessing s \<longleftrightarrow> inFlight s \<noteq> []) \<and>
     length (inFlight s) \<le> 1 \<and>
     (synthesisQueue s \<noteq> [] \<longrightarrow> isProcessing s) \<and>
     map fst (settled s) @ map (\<lambda>rp. promise (fst rp)) (pending s) = [0 ..< nextPromise s] \<and>
     (\<forall>rp \<in> set (inFlight s). snd rp = map_of (voiceProfiles s) (profileId (fst rp)))"

definition settled_similarity :: "service \<Rightarrow> bool" where
  "settled_similarity s \<longleftrightarrow>
     (\<forall>x \<in> set (settled s). \<forall>r. snd x = Inr r \<longrightarrow> similarity r = Num (95 / 100))"

section \<open>Concrete inputs\<close>

text \<open>
  A service with two stored profiles, \<open>a\<close> active and \<open>b\<close> not, an initialised native
  module without profiles, an embedding extractor that knows three samples, a native
  module that answers every synthesis and one that rejects every synthesis.
\<close>

definition demo_profile :: "string \<Rightarrow> bool \<Rightarrow> VoiceProfile" where
  "demo_profile pid active =
     \<lparr> profile_id = pid, name = ''demo'', audioSamples = [], embeddings = [Num 1, Num 0],
       characteristics = default_characteristics, createdAt = 0, isActive = active, quality = high \<rparr>"

definition demo_service :: service where
  "demo_service = idle_service True [(''a'', demo_profile ''a'' True), (''b'', demo_profile ''b'' False)]"

definition demo_native :: native_module where
  "demo_native = \<lparr> native_isInitialized = True, native_voiceProfiles = [] \<rparr>"

definition demo_extract :: "string \<Rightarrow> error + jsnum list" where
  "demo_extract path =
     (if path = ''one.wav'' then Inr [Num 1, Num 0]
      else if path = ''two.wav'' then Inr [Num 0, Num 1]
      else if path = ''short.wav'' then Inr [Num 3]
      else Inl (NativeReject ''AUDIO_LOAD_FAILED'' ''Failed to load audio file''))"

definition ok_ops :: synth_ops where
  "ok_ops =
     \<lparr> synthesizeVoice = (\<lambda>t pid lang emo. Inr (''/tmp/synth.wav'', Num 2)),
       adjustVoiceCharacteristics = (\<lambda>path p sp emo. Inr path),
       enhanceAudioQuality = (\<lambda>path. Inr path) \<rparr>"

definition failing_ops :: synth_ops where
  "failing_ops =
     \<lparr> synthesizeVoice =
         (\<lambda>t pid lang emo. Inl (NativeReject ''SYNTHESIS_FAILED'' ''Failed to synthesize voice'')),
       adjustVoiceCharacteristics = (\<lambda>path p sp emo. Inr path),
       enhanceAudioQuality = (\<lambda>path. Inr path) \<rparr>"

definition demo_options :: VoiceSynthesisOptions where
  "demo_options =
     \<lparr> language = ''es'', opt_characteristics = None, opt_quality = Some high, realTime = None \<rparr>"

definition demo_result :: VoiceCloneResult where
  "demo_result =
     \<lparr> audioPath = ''/tmp/synth.wav'', similarity = Num (95 / 100), duration = Num 2,
       applied_characteristics = default_characteristics \<rparr>"

definition three_submitted :: service where
  "three_submitted =
     run [Submit ''uno'' ''a'' demo_options, Submit ''dos'' ''a'' demo_options,
          Submit ''tres'' ''b'' demo_options]
       (idle_service True [(''a'', demo_profile ''a'' True), (''b'', demo_profile ''b'' False)])"

text \<open>
  The profile that \<open>createVoiceProfile\<close> builds at clock \<open>1\<close> and time 0 under the name
  \<open>n\<close>; a native module with two profiles; an audio chunk; a translation service that
  was never initialised; a cloning model and a primary translation backend that reject;
  and the result of the fallback translation of \<open>hello\<close>.
\<close>

definition created_profile :: "string list \<Rightarrow> jsnum list \<Rightarrow> VoiceProfile" where
  "created_profile samples embs =
     \<lparr> profile_id = ''profile_1'', name = ''n'', audioSamples = samples, embeddings = embs,
       characteristics = default_characteristics, createdAt = 0, isActive = False, quality = high \<rparr>"

definition demo_native_two :: native_module where
  "demo_native_two =
     \<lparr> native_isInitialized = True,
       native_voiceProfiles =
         [(''x'', \<lparr> np_name = ''x'', np_embeddings = [Num 3, Num 4], np_audioSamples = [] \<rparr>),
          (''y'', \<lparr> np_name = ''y'', np_embeddings = [Num 4, Num 3], np_audioSamples = [] \<rparr>)] \<rparr>"

definition demo_chunk :: AudioChunk where
  "demo_chunk =
     \<lparr> chunk_id = ''c1'', chunk_data = ''AAAA'', chunk_timestamp = 0, chunk_duration = 3000 \<rparr>"

definition uninitialized_seamless :: seamless where
  "uninitialized_seamless = \<lparr> sm_isInitialized = False, sm_isModelLoaded = False \<rparr>"

definition rejecting_clone :: clone_model where
  "rejecting_clone files path t lang = Inl (NativeReject ''CLONING_FAILED'' ''Failed to clone voice'')"

definition failing_openai :: "string \<Rightarrow> string \<Rightarrow> string \<Rightarrow> error + string" where
  "failing_openai t src tgt = Inl (Error ''Network request failed'')"

definition hola_result :: TranslationResult where
  "hola_result =
     \<lparr> originalText = ''hello'', translatedText = Str ''hola'', sourceLanguage = ''en'',
       targetLanguage = ''es'', confidence = 85 / 100, timestamp = 0 \<rparr>"

section \<open>The profile store keeps at most one profile active\<close>

lemma deactivate_all_no_active: "filter (\<lambda>kp. isActive (snd kp)) (deactivate_all ps) = []"
  by (induction ps) (auto simp: deactivate_all_def)

lemma deactivate_all_inactive: "\<forall>kp \<in> set (deactivate_all ps). \<not> isActive (snd kp)"
  by (induction ps) (auto simp: deactivate_all_def)

lemma deactivate_all_keys: "map fst (deactivate_all ps) = map fst ps"
  by (induction ps) (auto simp: deactivate_all_def)

lemma map_of_deactivate_all:
  "map_of (deactivate_all ps) k = map_option (\<lambda>p. p\<lparr>isActive := False\<rparr>) (map_of ps k)"
  by (induction ps) (auto simp: deactivate_all_def)

lemma active_map_entry:
  "length (filter (\<lambda>kp. isActive (snd kp)) (AList.map_entry k f ps))
     \<le> Suc (length (filter (\<lambda>kp. isActive (snd kp)) ps))"
  by (induction ps) auto

lemma active_update_inactive:
  "\<not> isActive v \<Longrightarrow>
   length (filter (\<lambda>kp. isActive (snd kp)) (AList.update k v ps))
     \<le> length (filter (\<lambda>kp. isActive (snd kp)) ps)"
  by (induction ps) auto

lemma active_delete:
  "length (filter (\<lambda>kp. isActive (snd kp)) (AList.delete k ps))
     \<le> length (filter (\<lambda>kp. isActive (snd kp)) ps)"
  by (induction ps) (auto simp: AList.delete_eq)

lemma active_map_entry_single:
  "\<forall>kp \<in> set ps. \<not> isActive (snd kp) \<Longrightarrow> k \<in> fst ` set ps \<Longrightarrow>
   map fst (filter (\<lambda>kp. isActive (snd kp)) (AList.map_entry k (\<lambda>p. p\<lparr>isActive := True\<rparr>) ps)) = [k]"
proof (induction ps)
  case Nil
  then show ?case by simp
next
  case (Cons a ps)
  have f: "filter (\<lambda>kp. isActive (snd kp)) ps = []"
    using Cons.prems(1) by (auto simp: filter_empty_conv)
  show ?case
  proof (cases "fst a = k")
    case True
    then show ?thesis using f by simp
  next
    case False
    then have "k \<in> fst ` set ps" using Cons.prems(2) by auto
    with Cons False show ?thesis by simp
  qed
qed

lemma setActiveProfile_inv: "at_most_one_active (snd (setActiveProfile s pid))"
  using active_map_entry[of pid "\<lambda>p. p\<lparr>isActive := True\<rparr>" "deactivate_all (voiceProfiles s)"]
  by (auto simp: setActiveProfile_def at_most_one_active_def active_profiles_def Let_def
      deactivate_all_no_active split: option.splits)

lemma createVoiceProfile_inv:
  assumes "at_most_one_active s"
  shows "at_most_one_active (fst (snd (createVoiceProfile extract millis now s nm pname samples chars)))"
proof (cases "fst (createVoiceProfile extract millis now s nm pname samples chars)")
  case (Inl e)
  then have "fst (snd (createVoiceProfile extract millis now s nm pname samples chars)) = s"
    by (auto simp: createVoiceProfile_def Let_def native_createVoiceProfile_def
        split: sum.splits prod.splits if_splits)
  with assms show ?thesis by simp
next
  case (Inr p)
  then have "\<not> isActive p \<and>
      voiceProfiles (fst (snd (createVoiceProfile extract millis now s nm pname samples chars)))
        = AList.update (profile_id p) p (voiceProfiles s)"
    by (auto simp: createVoiceProfile_def Let_def native_createVoiceProfile_def
        split: sum.splits prod.splits if_splits)
  with assms active_update_inactive[of p "profile_id p" "voiceProfiles s"] show ?thesis
    by (simp add: at_most_one_active_def active_profiles_def)
qed

lemma deleteVoiceProfile_inv:
  assumes "at_most_one_active s"
  shows "at_most_one_active (fst (snd (deleteVoiceProfile s nm pid)))"
  using assms active_delete[of pid "voiceProfiles s"]
  by (simp add: deleteVoiceProfile_def at_most_one_active_def active_profiles_def
      native_cleanupVoiceProfile_def)

lemma setActiveProfile_known:
  assumes "map_of (voiceProfiles s) pid \<noteq> None"
  shows "active_profiles (snd (setActiveProfile s pid)) = [pid]"
proof -
  let ?ps = "deactivate_all (voiceProfiles s)"
  from assms obtain q where q: "map_of ?ps pid = Some q"
    by (auto simp: map_of_deactivate_all)
  then have "(pid, q) \<in> set ?ps" by (rule map_of_SomeD)
  then have "pid \<in> fst ` set ?ps" by force
  then show ?thesis
    using q active_map_entry_single[OF deactivate_all_inactive, of pid "voiceProfiles s"]
    by (simp add: setActiveProfile_def Let_def active_profiles_def)
qed

lemma active_update:
  "length (filter (\<lambda>kp. isActive (snd kp)) (AList.update k v ps))
     \<le> length (filter (\<lambda>kp. isActive (snd kp)) ps) + (if isActive v then 1 else 0)"
  by (induction ps) auto

lemma active_fold_update:
  "length (filter (\<lambda>kp. isActive (snd kp)) (fold (\<lambda>p ps. AList.update (profile_id p) p ps) profiles ps))
     \<le> length (filter (\<lambda>kp. isActive (snd kp)) ps) + length (filter isActive profiles)"
proof (induction profiles arbitrary: ps)
  case Nil
  then show ?case by simp
next
  case (Cons p profiles)
  from Cons[of "AList.update (profile_id p) p ps"] active_update[of "profile_id p" p ps]
  show ?case by (simp split: if_splits)
qed

text \<open>
  A service that starts by loading what \<open>saveVoiceProfiles\<close> wrote from a store with at
  most one active profile has at most one active profile.
\<close>

lemma loadVoiceProfiles_saved_inv:
  assumes "at_most_one_active s"
  shows "at_most_one_active (loadVoiceProfiles new_service (Some (saved_profiles s)))"
proof -
  have "length (filter isActive (map snd (voiceProfiles s)))
      = length (filter (\<lambda>kp. isActive (snd kp)) (voiceProfiles s))"
    by (induction "voiceProfiles s") (simp_all add: filter_map comp_def)
  with assms active_fold_update[of "map snd (voiceProfiles s)" "[]"] show ?thesis
    by (simp add: at_most_one_active_def active_profiles_def loadVoiceProfiles_def
        saved_profiles_def new_service_def)
qed

text \<open>
  Claim C3. At most one stored profile is active: this holds of the new service, every
  one of \<open>createVoiceProfile\<close>, \<open>setActiveProfile\<close> and \<open>deleteVoiceProfile\<close> keeps it,
  whether the operation succeeds or fails, and \<open>setActiveProfile\<close> with a stored id
  leaves that profile as the only active one.
\<close>

theorem at_most_one_active_invariant:
  "at_most_one_active new_service \<and>
   (at_most_one_active s \<longrightarrow>
      at_most_one_active (fst (snd (createVoiceProfile extract millis now s nm pname samples chars))) \<and>
      at_most_one_active (snd (setActiveProfile s pid)) \<and>
      at_most_one_active (fst (snd (deleteVoiceProfile s nm pid)))) \<and>
   (map_of (voiceProfiles s) pid \<noteq> None \<longrightarrow> active_profiles (snd (setActiveProfile s pid)) = [pid])"
proof -
  have "at_most_one_active new_service"
    by (simp add: at_most_one_active_def active_profiles_def new_service_def)
  then show ?thesis
    using createVoiceProfile_inv setActiveProfile_inv deleteVoiceProfile_inv setActiveProfile_known
    by blast
qed

theorem at_most_one_active_invariant_witness:
  "at_most_one_active demo_service \<and> map_of (voiceProfiles demo_service) ''b'' \<noteq> None \<and>
   active_profiles demo_service = [''a''] \<and>
   active_profiles (snd (setActiveProfile demo_service ''b'')) = [''b''] \<and>
   at_most_one_active (snd (setActiveProfile demo_service ''b'')) \<and>
   at_most_one_active (fst (snd (deleteVoiceProfile demo_service demo_native ''b''))) \<and>
   at_most_one_active
     (fst (snd (createVoiceProfile demo_extract ''1'' 0 demo_service demo_native ''n'' [''one.wav''] None)))"
proof -
  have a: "at_most_one_active demo_service"
    by (simp add: at_most_one_active_def active_profiles_def demo_service_def idle_service_def
        new_service_def demo_profile_def)
  have b: "map_of (voiceProfiles demo_service) ''b'' \<noteq> None"
    by (simp add: demo_service_def idle_service_def new_service_def)
  have c: "active_profiles demo_service = [''a'']"
    by (simp add: active_profiles_def demo_service_def idle_service_def new_service_def
        demo_profile_def)
  show ?thesis
    using a b c
      at_most_one_active_invariant[of demo_service demo_extract "''1''" 0 demo_native "''n''"
        "[''one.wav'']" None "''b''"]
    by simp
qed

section \<open>Activating an unknown profile\<close>

lemma deactivate_all_other_fields:
  "map (\<lambda>kp. (snd kp)\<lparr>isActive := False\<rparr>) (deactivate_all ps)
     = map (\<lambda>kp. (snd kp)\<lparr>isActive := False\<rparr>) ps"
  by (induction ps) (auto simp: deactivate_all_def)

text \<open>
  Claim C9, as the specification states it, fails: with profile \<open>a\<close> active and no
  profile \<open>zz\<close>, \<open>setActiveProfile\<close> of \<open>zz\<close> returns normally, and afterwards no
  profile is active.
\<close>

theorem setActiveProfile_unknown_deactivates:
  "map_of (voiceProfiles demo_service) ''zz'' = None \<and>
   active_profiles demo_service = [''a''] \<and>
   fst (setActiveProfile demo_service ''zz'') = Inr () \<and>
   active_profiles (snd (setActiveProfile demo_service ''zz'')) = []"
  by (simp add: setActiveProfile_def deactivate_all_def active_profiles_def demo_service_def
      idle_service_def new_service_def demo_profile_def Let_def)

text \<open>
  Claim C9, amended. \<open>setActiveProfile\<close> with an unknown id raises no error. It returns
  normally, activates no profile (a profile active afterwards was active before), and
  leaves the stored ids, every field of every profile other than the active flag, and
  every other field of the service as they were.
\<close>

theorem setActiveProfile_unknown_silent:
  assumes "map_of (voiceProfiles s) pid = None"
  shows "fst (setActiveProfile s pid) = Inr () \<and>
         map fst (voiceProfiles (snd (setActiveProfile s pid))) = map fst (voiceProfiles s) \<and>
         map (\<lambda>kp. (snd kp)\<lparr>isActive := False\<rparr>) (voiceProfiles (snd (setActiveProfile s pid)))
           = map (\<lambda>kp. (snd kp)\<lparr>isActive := False\<rparr>) (voiceProfiles s) \<and>
         set (active_profiles (snd (setActiveProfile s pid))) \<subseteq> set (active_profiles s) \<and>
         (snd (setActiveProfile s pid))\<lparr>voiceProfiles := voiceProfiles s\<rparr> = s"
proof -
  from assms have n: "map_of (deactivate_all (voiceProfiles s)) pid = None"
    by (simp add: map_of_deactivate_all)
  then have e: "setActiveProfile s pid = (Inr (), s\<lparr>voiceProfiles := deactivate_all (voiceProfiles s)\<rparr>)"
    by (simp add: setActiveProfile_def Let_def)
  show ?thesis
    by (simp add: e deactivate_all_keys deactivate_all_other_fields active_profiles_def
        deactivate_all_no_active)
qed

theorem setActiveProfile_unknown_silent_witness:
  "map_of (voiceProfiles demo_service) ''zz'' = None \<and>
   fst (setActiveProfile demo_service ''zz'') = Inr () \<and>
   map fst (voiceProfiles (snd (setActiveProfile demo_service ''zz''))) = [''a'', ''b'']"
proof -
  have h: "map_of (voiceProfiles demo_service) ''zz'' = None"
    by (simp add: demo_service_def idle_service_def new_service_def)
  have k: "map fst (voiceProfiles demo_service) = [''a'', ''b'']"
    by (simp add: demo_service_def idle_service_def new_service_def)
  show ?thesis using h k setActiveProfile_unknown_silent[OF h] by simp
qed

section \<open>Averaging the embeddings of a new profile\<close>

lemma fold_update_upt:
  "n \<le> length a \<Longrightarrow>
   fold (\<lambda>i avg. avg[i := f i (avg ! i)]) [0 ..< n] a = map (\<lambda>i. f i (a ! i)) [0 ..< n] @ drop n a"
proof (induction n)
  case 0
  then show ?case by simp
next
  case (Suc n)
  then have n: "n < length a" by simp
  from Suc have IH: "fold (\<lambda>i avg. avg[i := f i (avg ! i)]) [0 ..< n] a = map (\<lambda>i. f i (a ! i)) [0 ..< n] @ drop n a"
    by simp
  have d: "drop n a = a ! n # drop (Suc n) a" using n by (simp add: Cons_nth_drop_Suc)
  show ?case
    by (simp add: IH list_update_append nth_append d)
qed

lemma fold_update_upt_full:
  "length a = n \<Longrightarrow>
   fold (\<lambda>i avg. avg[i := f i (avg ! i)]) [0 ..< n] a = map (\<lambda>i. f i (a ! i)) [0 ..< n]"
  using fold_update_upt[of n a f] by simp

lemma add_embedding_eq:
  "length avg = n \<Longrightarrow> add_embedding n e avg = map (\<lambda>i. jsadd (avg ! i) (js_index e i)) [0 ..< n]"
  unfolding add_embedding_def
  using fold_update_upt_full[of avg n "\<lambda>i x. jsadd x (js_index e i)"] by simp

lemma fold_add_embedding:
  "length avg = n \<Longrightarrow>
   fold (add_embedding n) embs avg = map (\<lambda>i. foldl jsadd (avg ! i) (map (\<lambda>e. js_index e i) embs)) [0 ..< n]"
proof (induction embs arbitrary: avg)
  case Nil
  then show ?case using map_nth[of avg] by simp
next
  case (Cons e embs)
  have l: "length (add_embedding n e avg) = n" using Cons.prems by (simp add: add_embedding_eq)
  show ?case using Cons.IH[OF l] Cons.prems by (simp add: add_embedding_eq)
qed

lemma averageEmbeddings_Nil: "averageEmbeddings [] = []"
  by (simp add: averageEmbeddings_def)

lemma averageEmbeddings_Cons:
  "averageEmbeddings (e # es) = map (js_mean (e # es)) [0 ..< length e]"
proof -
  let ?n = "length e"
  let ?s = "fold (add_embedding ?n) (e # es) (replicate ?n (Num 0))"
  have s: "?s = map (\<lambda>i. foldl jsadd (Num 0) (map (\<lambda>x. js_index x i) (e # es))) [0 ..< ?n]"
    using fold_add_embedding[of "replicate ?n (Num 0)" ?n "e # es"] by simp
  have l: "length ?s = ?n" by (simp only: s length_map length_upt minus_nat.diff_0)
  have "averageEmbeddings (e # es) =
      fold (\<lambda>i avg. avg[i := jsdiv (avg ! i) (Num (real (length (e # es))))]) [0 ..< ?n] ?s"
    by (simp add: averageEmbeddings_def Let_def)
  also have "\<dots> = map (\<lambda>i. jsdiv (?s ! i) (Num (real (length (e # es))))) [0 ..< ?n]"
    using fold_update_upt_full[OF l, of "\<lambda>i x. jsdiv x (Num (real (length (e # es))))"] by simp
  also have "\<dots> = map (js_mean (e # es)) [0 ..< ?n]"
    by (simp only: s) (simp add: js_mean_def)
  finally show ?thesis .
qed

lemma foldl_jsadd_Num: "foldl jsadd (Num a) (map Num xs) = Num (a + sum_list xs)"
  by (induction xs arbitrary: a) (simp_all add: add.assoc)

lemma js_mean_real:
  assumes "vs \<noteq> []" "\<forall>v \<in> set vs. i < length v"
  shows "js_mean (map (map Num) vs) i = Num (elementwise_mean vs i)"
proof -
  have m: "map (\<lambda>e. js_index e i) (map (map Num) vs) = map Num (map (\<lambda>v. v ! i) vs)"
    using assms(2) by (simp add: js_index_def)
  have "js_mean (map (map Num) vs) i = jsdiv (Num (sum_list (map (\<lambda>v. v ! i) vs))) (Num (real (length vs)))"
    unfolding js_mean_def m foldl_jsadd_Num by simp
  then show ?thesis using assms(1)
    by (simp add: elementwise_mean_def)
qed

lemma extract_all_Inr: "extract_all extract xs = Inr es \<longleftrightarrow> map extract xs = map Inr es"
proof (induction xs arbitrary: es)
  case Nil
  then show ?case by auto
next
  case (Cons x xs)
  show ?case
  proof (cases "extract x")
    case (Inl a)
    then show ?thesis by (cases es) auto
  next
    case (Inr b)
    show ?thesis
    proof (cases "extract_all extract xs")
      case (Inl a)
      with Inr Cons[of "tl es"] show ?thesis by (cases es) auto
    next
      case r: (Inr bs)
      with Inr Cons[of bs] Cons[of "tl es"] show ?thesis by (cases es) auto
    qed
  qed
qed

lemma extract_all_Inl:
  "extract_all extract xs = Inl e \<Longrightarrow> \<exists>path \<in> set xs. extract path = Inl e"
  by (induction xs) (auto split: sum.splits)

lemma createVoiceProfile_success:
  assumes "fst (createVoiceProfile extract millis now s nm pname samples chars) = Inr p"
  shows "\<exists>embs. map extract samples = map Inr embs \<and> embeddings p = averageEmbeddings embs \<and>
           \<not> isActive p \<and>
           voiceProfiles (fst (snd (createVoiceProfile extract millis now s nm pname samples chars)))
             = AList.update (profile_id p) p (voiceProfiles s)"
proof -
  from assms have i: "isInitialized s"
    by (auto simp: createVoiceProfile_def split: if_splits)
  from assms i obtain embs where e: "extract_all extract samples = Inr embs"
    by (cases "extract_all extract samples") (auto simp: createVoiceProfile_def)
  from assms i e have n: "native_isInitialized nm"
    by (auto simp: createVoiceProfile_def Let_def native_createVoiceProfile_def split: if_splits)
  let ?p = "\<lparr> profile_id = ''profile_'' @ millis, name = pname, audioSamples = samples,
              embeddings = averageEmbeddings embs,
              characteristics = (case chars of Some c \<Rightarrow> c | None \<Rightarrow> default_characteristics),
              createdAt = now, isActive = False, quality = high \<rparr>"
  have c: "createVoiceProfile extract millis now s nm pname samples chars =
      (Inr ?p, s\<lparr>voiceProfiles := AList.update (''profile_'' @ millis) ?p (voiceProfiles s)\<rparr>,
       nm\<lparr>native_voiceProfiles := AList.update (''profile_'' @ millis)
            \<lparr> np_name = pname, np_embeddings = averageEmbeddings embs, np_audioSamples = samples \<rparr>
            (native_voiceProfiles nm)\<rparr>)"
    using i e n by (simp add: createVoiceProfile_def Let_def native_createVoiceProfile_def)
  from assms c have p: "p = ?p" by simp
  have "map extract samples = map Inr embs" using e by (simp add: extract_all_Inr)
  moreover have "embeddings p = averageEmbeddings embs" by (simp add: p)
  moreover have "\<not> isActive p" by (simp add: p)
  moreover have "voiceProfiles (fst (snd (createVoiceProfile extract millis now s nm pname samples chars)))
             = AList.update (profile_id p) p (voiceProfiles s)"
    unfolding c p by simp
  ultimately show ?thesis by blast
qed

lemma createVoiceProfile_succeeds:
  assumes "isInitialized s" "native_isInitialized nm" "map extract samples = map Inr embs"
  shows "\<exists>p. fst (createVoiceProfile extract millis now s nm pname samples chars) = Inr p \<and>
            embeddings p = averageEmbeddings embs"
proof -
  from assms(3) have "extract_all extract samples = Inr embs" by (simp add: extract_all_Inr)
  with assms(1,2) show ?thesis
    by (simp add: createVoiceProfile_def Let_def native_createVoiceProfile_def)
qed

lemma createVoiceProfile_failure:
  assumes "fst (createVoiceProfile extract millis now s nm pname samples chars) = Inl err"
  shows "err = Error ''Voice cloning not initialized'' \<or>
         err = NativeReject ''NOT_INITIALIZED'' ''Voice cloning not initialized'' \<or>
         (\<exists>path \<in> set samples. extract path = Inl err)"
  using assms
  by (auto simp: createVoiceProfile_def Let_def native_createVoiceProfile_def
      split: sum.splits prod.splits if_splits dest: extract_all_Inl)

lemma length_averageEmbeddings:
  "length (averageEmbeddings embs) = (case embs of [] \<Rightarrow> 0 | e # _ \<Rightarrow> length e)"
  by (cases embs) (simp_all add: averageEmbeddings_Nil averageEmbeddings_Cons)

lemma demo_create:
  "map demo_extract samples = map Inr embs \<Longrightarrow>
   fst (createVoiceProfile demo_extract ''1'' 0 demo_service demo_native ''n'' samples None)
     = Inr (created_profile samples (averageEmbeddings embs))"
  by (simp add: createVoiceProfile_def native_createVoiceProfile_def demo_service_def
      idle_service_def new_service_def demo_native_def created_profile_def Let_def
      extract_all_Inr[symmetric])

lemma upt_2: "[0 ..< 2] = [0, Suc 0]"
  by (simp add: upt_rec)

lemma average_one_two:
  "averageEmbeddings [[Num 1, Num 0], [Num 0, Num 1]] = [Num (1 / 2), Num (1 / 2)]"
  by (simp add: averageEmbeddings_Cons js_mean_def js_index_def upt_2)

lemma average_one_short:
  "averageEmbeddings [[Num 1, Num 0], [Num 3]] = [Num 2, NaN]"
  by (simp add: averageEmbeddings_Cons js_mean_def js_index_def upt_2)

text \<open>
  Claim C2. When \<open>createVoiceProfile\<close> succeeds on at least one sample, every sample
  was given an embedding by the extractor, the profile returned is stored under its id,
  and its embedding has, at each index \<open>i\<close> below the length of the first embedding,
  the sum of the \<open>i\<close>-th entries of all embeddings divided by their number, in the
  arithmetic of the program. When all embeddings are vectors of reals of one length,
  that is the element-wise arithmetic mean.
\<close>

theorem createVoiceProfile_embedding_is_mean:
  assumes "fst (createVoiceProfile extract millis now s nm pname samples chars) = Inr p"
      and "samples \<noteq> []"
  shows "\<exists>e es. map extract samples = map Inr (e # es) \<and>
           map_of (voiceProfiles (fst (snd (createVoiceProfile extract millis now s nm pname samples chars))))
             (profile_id p) = Some p \<and>
           embeddings p = map (js_mean (e # es)) [0 ..< length e] \<and>
           (\<forall>vs n. e # es = map (map Num) vs \<and> (\<forall>v \<in> set vs. length v = n) \<longrightarrow>
              embeddings p = map (\<lambda>i. Num (elementwise_mean vs i)) [0 ..< n])"
proof -
  from createVoiceProfile_success[OF assms(1)] obtain embs where
    m: "map extract samples = map Inr embs" and a: "embeddings p = averageEmbeddings embs"
    and v: "voiceProfiles (fst (snd (createVoiceProfile extract millis now s nm pname samples chars)))
             = AList.update (profile_id p) p (voiceProfiles s)" by blast
  from m assms(2) obtain e es where c: "embs = e # es" by (cases embs) auto
  have st: "map_of (voiceProfiles (fst (snd (createVoiceProfile extract millis now s nm pname samples chars))))
             (profile_id p) = Some p" by (simp add: v update_conv')
  have mean: "embeddings p = map (js_mean (e # es)) [0 ..< length e]"
    using a c by (simp add: averageEmbeddings_Cons)
  have mean_real: "embeddings p = map (\<lambda>i. Num (elementwise_mean vs i)) [0 ..< n]"
    if h: "e # es = map (map Num) vs" "\<forall>v \<in> set vs. length v = n" for vs n
  proof -
    from h(1) have ne: "vs \<noteq> []" by auto
    from h obtain v0 where "v0 \<in> set vs" "e = map Num v0" by (cases vs) auto
    with h(2) have le: "length e = n" by auto
    have "map (js_mean (e # es)) [0 ..< length e] = map (\<lambda>i. Num (elementwise_mean vs i)) [0 ..< n]"
      unfolding le h(1) using js_mean_real[OF ne, of _] h(2) by simp
    with mean show ?thesis by simp
  qed
  have all: "\<forall>vs n. e # es = map (map Num) vs \<and> (\<forall>v \<in> set vs. length v = n) \<longrightarrow>
              embeddings p = map (\<lambda>i. Num (elementwise_mean vs i)) [0 ..< n]"
  proof (intro allI impI)
    fix vs n
    assume "e # es = map (map Num) vs \<and> (\<forall>v \<in> set vs. length v = n)"
    then have "e # es = map (map Num) vs" and "\<forall>v \<in> set vs. length v = n" by simp_all
    then show "embeddings p = map (\<lambda>i. Num (elementwise_mean vs i)) [0 ..< n]" by (rule mean_real)
  qed
  from m c have "map extract samples = map Inr (e # es)" by simp
  with st mean all show ?thesis by blast
qed

theorem createVoiceProfile_embedding_is_mean_witness:
  "fst (createVoiceProfile demo_extract ''1'' 0 demo_service demo_native ''n'' [''one.wav'', ''two.wav''] None)
     = Inr (created_profile [''one.wav'', ''two.wav''] [Num (1 / 2), Num (1 / 2)]) \<and>
   [''one.wav'', ''two.wav''] \<noteq> [] \<and>
   embeddings (created_profile [''one.wav'', ''two.wav''] [Num (1 / 2), Num (1 / 2)])
     = map (\<lambda>i. Num (elementwise_mean [[1, 0], [0, 1]] i)) [0 ..< 2]"
proof -
  let ?p = "created_profile [''one.wav'', ''two.wav''] [Num (1 / 2), Num (1 / 2)]"
  have h: "fst (createVoiceProfile demo_extract ''1'' 0 demo_service demo_native ''n'' [''one.wav'', ''two.wav''] None)
     = Inr ?p"
    using demo_create[of "[''one.wav'', ''two.wav'']" "[[Num 1, Num 0], [Num 0, Num 1]]"]
    by (simp add: demo_extract_def average_one_two)
  have ne: "[''one.wav'', ''two.wav''] \<noteq> []" by simp
  from createVoiceProfile_embedding_is_mean[OF h ne] obtain e es where
    m: "map demo_extract [''one.wav'', ''two.wav''] = map Inr (e # es)" and
    r: "\<forall>vs n. e # es = map (map Num) vs \<and> (\<forall>v \<in> set vs. length v = n) \<longrightarrow>
              embeddings ?p = map (\<lambda>i. Num (elementwise_mean vs i)) [0 ..< n]" by blast
  from m have "e # es = map (map Num) [[1, 0], [0, 1]]" by (auto simp: demo_extract_def)
  with r have "embeddings ?p = map (\<lambda>i. Num (elementwise_mean [[1, 0], [0, 1]] i)) [0 ..< 2]"
    by simp
  with h ne show ?thesis by simp
qed

section \<open>What \<open>createVoiceProfile\<close> checks\<close>

text \<open>
  Claim C8, as the specification states it, fails: with an initialised service and
  native module, creation succeeds without samples, storing the empty embedding, and
  it succeeds on two samples whose embeddings have the lengths 2 and 1.
\<close>

theorem createVoiceProfile_accepts_malformed:
  "fst (createVoiceProfile demo_extract ''1'' 0 demo_service demo_native ''n'' [] None)
     = Inr (created_profile [] []) \<and>
   fst (createVoiceProfile demo_extract ''1'' 0 demo_service demo_native ''n'' [''one.wav'', ''short.wav''] None)
     = Inr (created_profile [''one.wav'', ''short.wav''] [Num 2, NaN])"
  using demo_create[of "[]" "[]"]
    demo_create[of "[''one.wav'', ''short.wav'']" "[[Num 1, Num 0], [Num 3]]"]
  by (simp add: demo_extract_def average_one_short averageEmbeddings_Nil)

text \<open>
  Claim C8, amended. \<open>createVoiceProfile\<close> checks neither the number of samples nor
  the lengths of their embeddings. With the service and the native module initialised
  and every extraction successful it succeeds for any list of samples, and the stored
  embedding has the length of the first embedding, or is empty when there is no
  sample. The only errors it raises are the two for a service or native module that is
  not initialised and the rejection of an extraction.
\<close>

theorem createVoiceProfile_unvalidated:
  "(isInitialized s \<and> native_isInitialized nm \<and> map extract samples = map Inr embs \<longrightarrow>
      (\<exists>p. fst (createVoiceProfile extract millis now s nm pname samples chars) = Inr p \<and>
           length (embeddings p) = (case embs of [] \<Rightarrow> 0 | e # _ \<Rightarrow> length e))) \<and>
   (fst (createVoiceProfile extract millis now s nm pname samples chars) = Inl err \<longrightarrow>
      err = Error ''Voice cloning not initialized'' \<or>
      err = NativeReject ''NOT_INITIALIZED'' ''Voice cloning not initialized'' \<or>
      (\<exists>path \<in> set samples. extract path = Inl err))"
  using createVoiceProfile_succeeds[of s nm "extract" samples embs millis now pname chars]
    createVoiceProfile_failure[of "extract" millis now s nm pname samples chars err]
    length_averageEmbeddings[of embs]
  by auto

theorem createVoiceProfile_unvalidated_witness:
  "isInitialized demo_service \<and> native_isInitialized demo_native \<and>
   map demo_extract [''one.wav'', ''short.wav''] = map Inr [[Num 1, Num 0], [Num 3]] \<and>
   (\<exists>p. fst (createVoiceProfile demo_extract ''1'' 0 demo_service demo_native ''n''
                [''one.wav'', ''short.wav''] None) = Inr p \<and>
        length (embeddings p) = 2) \<and>
   fst (createVoiceProfile demo_extract ''1'' 0 demo_service demo_native ''n'' [''missing.wav''] None)
     = Inl (NativeReject ''AUDIO_LOAD_FAILED'' ''Failed to load audio file'') \<and>
   demo_extract ''missing.wav'' = Inl (NativeReject ''AUDIO_LOAD_FAILED'' ''Failed to load audio file'')"
proof -
  have a: "isInitialized demo_service" "native_isInitialized demo_native"
    by (simp_all add: demo_service_def idle_service_def new_service_def demo_native_def)
  have b: "map demo_extract [''one.wav'', ''short.wav''] = map Inr [[Num 1, Num 0], [Num 3]]"
    by (simp add: demo_extract_def)
  have c: "fst (createVoiceProfile demo_extract ''1'' 0 demo_service demo_native ''n''
                 [''missing.wav''] None)
     = Inl (NativeReject ''AUDIO_LOAD_FAILED'' ''Failed to load audio file'')"
    by (simp add: createVoiceProfile_def demo_service_def idle_service_def new_service_def
        demo_extract_def)
  have first: "\<exists>p. fst (createVoiceProfile demo_extract ''1'' 0 demo_service demo_native ''n''
                [''one.wav'', ''short.wav''] None) = Inr p \<and>
        length (embeddings p) = 2"
    using a b
      createVoiceProfile_unvalidated[of demo_service demo_native demo_extract
        "[''one.wav'', ''short.wav'']" "[[Num 1, Num 0], [Num 3]]" "''1''" 0 "''n''" None TypeError]
    by (simp add: numeral_2_eq_2)
  have second: "demo_extract ''missing.wav''
      = Inl (NativeReject ''AUDIO_LOAD_FAILED'' ''Failed to load audio file'')"
    using c
      createVoiceProfile_unvalidated[of demo_service demo_native demo_extract "[''missing.wav'']"
        "[]" "''1''" 0 "''n''" None
        "NativeReject ''AUDIO_LOAD_FAILED'' ''Failed to load audio file''"]
    by simp
  from a b c first second show ?thesis by simp
qed

section \<open>The synthesis queue is first in, first out\<close>

lemma queue_inv_idle: "queue_inv (idle_service init ps)"
  by (simp add: queue_inv_def idle_service_def new_service_def pending_def)

lemma queue_inv_submit:
  assumes "queue_inv s"
  shows "queue_inv (snd (synthesizeVoiceWithCloning s t pid opts))"
proof (cases "inFlight s")
  case Nil
  with assms show ?thesis
    by (auto simp: queue_inv_def synthesizeVoiceWithCloning_def processSynthesisQueue_def
        worker_continue_def pending_def Let_def split: option.splits)
next
  case (Cons a list)
  with assms show ?thesis
    by (auto simp: queue_inv_def synthesizeVoiceWithCloning_def processSynthesisQueue_def
        worker_continue_def pending_def Let_def split: option.splits)
qed

lemma queue_inv_done:
  assumes "queue_inv s"
  shows "queue_inv (synthesis_done ops i s)"
proof (cases "inFlight s")
  case Nil
  then show ?thesis using assms by (simp add: synthesis_done_def)
next
  case (Cons a list)
  with assms have l: "list = []" by (simp add: queue_inv_def)
  show ?thesis
  proof (cases i)
    case 0
    with assms Cons l show ?thesis
      by (cases "synthesisQueue s")
         (auto simp: queue_inv_def synthesis_done_def worker_continue_def pending_def
           split: prod.splits)
  next
    case (Suc n)
    with assms Cons l show ?thesis by (simp add: synthesis_done_def)
  qed
qed

lemma queue_inv_step: "queue_inv s \<Longrightarrow> queue_inv (step s e)"
  by (cases e) (simp_all add: queue_inv_submit queue_inv_done)

lemma queue_inv_run: "queue_inv s \<Longrightarrow> queue_inv (run evs s)"
  unfolding run_def by (induction evs arbitrary: s) (simp_all add: queue_inv_step)

lemma done_head:
  assumes "queue_inv s" "pending s = rp # rest"
  shows "settled (synthesis_done ops 0 s) = settled s @ [outcome_of ops rp]
       \<and> pending (synthesis_done ops 0 s) = rest
       \<and> nextPromise (synthesis_done ops 0 s) = nextPromise s"
proof (cases "inFlight s")
  case Nil
  with assms show ?thesis by (auto simp: queue_inv_def pending_def)
next
  case (Cons a list)
  with assms have l: "list = []" by (simp add: queue_inv_def)
  with assms Cons show ?thesis
    by (cases "synthesisQueue s")
       (auto simp: synthesis_done_def worker_continue_def pending_def outcome_of_def
         split: prod.splits)
qed

lemma drain:
  "queue_inv s \<Longrightarrow> length opss = length (pending s) \<Longrightarrow>
     settled (run (map (\<lambda>ops. Done ops 0) opss) s) = settled s @ map2 outcome_of opss (pending s)
   \<and> pending (run (map (\<lambda>ops. Done ops 0) opss) s) = []
   \<and> nextPromise (run (map (\<lambda>ops. Done ops 0) opss) s) = nextPromise s"
proof (induction opss arbitrary: s)
  case Nil
  then show ?case by (simp add: run_def)
next
  case (Cons ops opss)
  then obtain rp rest where p: "pending s = rp # rest" by (cases "pending s") auto
  from done_head[OF Cons.prems(1) p, of ops]
  have a: "settled (synthesis_done ops 0 s) = settled s @ [outcome_of ops rp]"
    and b: "pending (synthesis_done ops 0 s) = rest"
    and c: "nextPromise (synthesis_done ops 0 s) = nextPromise s" by auto
  have i: "queue_inv (synthesis_done ops 0 s)" using Cons.prems(1) by (rule queue_inv_done)
  have len: "length opss = length (pending (synthesis_done ops 0 s))"
    using Cons.prems(2) p b by simp
  from Cons.IH[OF i len] a b c p show ?case by (simp add: run_def)
qed

lemma three_submitted_eval:
  "three_submitted = demo_service
     \<lparr> synthesisQueue :=
         [\<lparr> text_of = ''dos'', profileId = ''a'', options = demo_options, promise = 1 \<rparr>,
          \<lparr> text_of = ''tres'', profileId = ''b'', options = demo_options, promise = 2 \<rparr>],
       isProcessing := True,
       inFlight :=
         [(\<lparr> text_of = ''uno'', profileId = ''a'', options = demo_options, promise = 0 \<rparr>,
           Some (demo_profile ''a'' True))],
       nextPromise := 3 \<rparr>"
  by (simp add: three_submitted_def run_def synthesizeVoiceWithCloning_def
      processSynthesisQueue_def worker_continue_def demo_service_def idle_service_def
      new_service_def Let_def)

lemma pending_three:
  "pending three_submitted =
     [(\<lparr> text_of = ''uno'', profileId = ''a'', options = demo_options, promise = 0 \<rparr>,
       Some (demo_profile ''a'' True)),
      (\<lparr> text_of = ''dos'', profileId = ''a'', options = demo_options, promise = 1 \<rparr>,
       Some (demo_profile ''a'' True)),
      (\<lparr> text_of = ''tres'', profileId = ''b'', options = demo_options, promise = 2 \<rparr>,
       Some (demo_profile ''b'' False))]"
  by (simp add: three_submitted_eval pending_def demo_service_def idle_service_def new_service_def)

lemma settled_three: "settled three_submitted = []"
  by (simp add: three_submitted_eval demo_service_def idle_service_def new_service_def)

lemma outcome_ok:
  "outcome_of ok_ops
     (\<lparr> text_of = t, profileId = pid, options = demo_options, promise = n \<rparr>,
      Some (demo_profile pid' act))
   = (n, Inr demo_result)"
  by (simp add: outcome_of_def performVoiceSynthesis_def ok_ops_def demo_options_def
      demo_profile_def demo_result_def)

lemma outcome_failing:
  "outcome_of failing_ops
     (\<lparr> text_of = t, profileId = pid, options = demo_options, promise = n \<rparr>, prof)
   = (n, Inl (NativeReject ''SYNTHESIS_FAILED'' ''Failed to synthesize voice''))"
  by (simp add: outcome_of_def performVoiceSynthesis_def failing_ops_def demo_options_def)

text \<open>
  Claim C1. Start from a service with an empty queue and let any sequence of
  submissions and completions happen. Then at most one synthesis is in flight; the
  promises settled so far, followed by the one in flight and the ones queued, are the
  promises of the pushed requests in the order of submission, so promises are
  resolved or rejected in that order; and when the native module answers the
  syntheses still pending, whatever the answers are, each pending request is settled
  in turn with the outcome of its own synthesis and none is left: a rejection does not
  stop the requests behind it. The hypothesis gives one answer per pending request.
\<close>

theorem synthesis_queue_fifo:
  assumes "length opss = length (pending (run evs (idle_service init ps)))"
  shows "length (inFlight (run evs (idle_service init ps))) \<le> 1 \<and>
         map fst (settled (run evs (idle_service init ps))) @
           map (\<lambda>rp. promise (fst rp)) (pending (run evs (idle_service init ps)))
           = [0 ..< nextPromise (run evs (idle_service init ps))] \<and>
         settled (run (map (\<lambda>ops. Done ops 0) opss) (run evs (idle_service init ps)))
           = settled (run evs (idle_service init ps)) @
             map2 outcome_of opss (pending (run evs (idle_service init ps))) \<and>
         pending (run (map (\<lambda>ops. Done ops 0) opss) (run evs (idle_service init ps))) = []"
proof -
  let ?s = "run evs (idle_service init ps)"
  have i: "queue_inv ?s" using queue_inv_idle by (rule queue_inv_run)
  then have a: "length (inFlight ?s) \<le> 1"
    and b: "map fst (settled ?s) @ map (\<lambda>rp. promise (fst rp)) (pending ?s) = [0 ..< nextPromise ?s]"
    by (simp_all add: queue_inv_def)
  from drain[OF i assms] a b show ?thesis by simp
qed

theorem synthesis_queue_fifo_witness:
  "length [ok_ops, failing_ops, ok_ops] = length (pending three_submitted) \<and>
   settled (run (map (\<lambda>ops. Done ops 0) [ok_ops, failing_ops, ok_ops]) three_submitted) =
     [(0, Inr demo_result),
      (1, Inl (NativeReject ''SYNTHESIS_FAILED'' ''Failed to synthesize voice'')),
      (2, Inr demo_result)]"
proof -
  have h: "length [ok_ops, failing_ops, ok_ops] =
      length (pending (run [Submit ''uno'' ''a'' demo_options, Submit ''dos'' ''a'' demo_options,
                            Submit ''tres'' ''b'' demo_options]
                (idle_service True [(''a'', demo_profile ''a'' True), (''b'', demo_profile ''b'' False)])))"
    using pending_three by (simp add: three_submitted_def)
  show ?thesis
    using synthesis_queue_fifo[OF h] pending_three settled_three
    by (simp add: three_submitted_def[symmetric] outcome_ok outcome_failing)
qed

section \<open>The similarity reported by the queue\<close>

lemma performVoiceSynthesis_similarity:
  "performVoiceSynthesis ops profile t pid opts = Inr r \<Longrightarrow> similarity r = Num (95 / 100)"
  by (auto simp: performVoiceSynthesis_def split: sum.splits option.splits if_splits prod.splits)

lemma worker_continue_settled: "settled (worker_continue s) = settled s"
  by (simp add: worker_continue_def split: list.splits)

lemma step_settled_similarity:
  assumes "settled_similarity s"
  shows "settled_similarity (step s e)"
proof (cases e)
  case (Submit t pid opts)
  with assms show ?thesis
    by (auto simp: settled_similarity_def synthesizeVoiceWithCloning_def processSynthesisQueue_def
        worker_continue_settled Let_def split: option.splits)
next
  case (Done ops i)
  with assms show ?thesis
    by (auto simp: settled_similarity_def synthesis_done_def worker_continue_settled
        split: prod.splits dest: performVoiceSynthesis_similarity)
qed

lemma run_settled_similarity: "settled_similarity s \<Longrightarrow> settled_similarity (run evs s)"
  unfolding run_def by (induction evs arbitrary: s) (simp_all add: step_settled_similarity)

text \<open>
  Claim C10. Whatever the text, the profile, the options and the answers of the native
  module, a result of \<open>performVoiceSynthesis\<close> has similarity 0.95, and so has every
  result with which the worker of the queue resolves a promise.
\<close>

theorem queued_synthesis_similarity_constant:
  "(performVoiceSynthesis ops profile t pid opts = Inr r \<longrightarrow> similarity r = Num (95 / 100)) \<and>
   ((p, Inr r') \<in> set (settled (run evs (idle_service init ps))) \<longrightarrow> similarity r' = Num (95 / 100))"
proof -
  have "settled_similarity (idle_service init ps)"
    by (simp add: settled_similarity_def idle_service_def new_service_def)
  then have "settled_similarity (run evs (idle_service init ps))" by (rule run_settled_similarity)
  then show ?thesis
    using performVoiceSynthesis_similarity by (fastforce simp: settled_similarity_def)
qed

theorem queued_synthesis_similarity_constant_witness:
  "performVoiceSynthesis ok_ops (Some (demo_profile ''a'' True)) ''uno'' ''a'' demo_options =
     Inr demo_result \<and>
   (0, Inr demo_result)
     \<in> set (settled (run [Submit ''uno'' ''a'' demo_options, Done ok_ops 0]
          (idle_service True [(''a'', demo_profile ''a'' True), (''b'', demo_profile ''b'' False)]))) \<and>
   similarity demo_result = Num (95 / 100)"
proof -
  have h1: "performVoiceSynthesis ok_ops (Some (demo_profile ''a'' True)) ''uno'' ''a'' demo_options
      = Inr demo_result"
    by (simp add: performVoiceSynthesis_def ok_ops_def demo_options_def demo_profile_def
        demo_result_def)
  have h2: "(0, Inr demo_result) \<in> set (settled (run [Submit ''uno'' ''a'' demo_options, Done ok_ops 0]
          (idle_service True [(''a'', demo_profile ''a'' True), (''b'', demo_profile ''b'' False)])))"
    by (simp add: run_def synthesizeVoiceWithCloning_def processSynthesisQueue_def
        synthesis_done_def worker_continue_def idle_service_def new_service_def Let_def h1)
  show ?thesis
    using h1 h2
      queued_synthesis_similarity_constant[of ok_ops "Some (demo_profile ''a'' True)" "''uno''"
        "''a''" demo_options demo_result 0 demo_result
        "[Submit ''uno'' ''a'' demo_options, Done ok_ops 0]" True
        "[(''a'', demo_profile ''a'' True), (''b'', demo_profile ''b'' False)]"]
    by blast
qed

section \<open>Comparing voices\<close>

lemma cosine_fold:
  assumes "length x = length y" "k \<le> length x"
  shows "fold (cosine_step (map Num x) (map Num y)) [0 ..< k] (Num 0, Num 0, Num 0) =
     (Num (\<Sum>i = 0 ..< k. x ! i * y ! i), Num (\<Sum>i = 0 ..< k. x ! i * x ! i),
      Num (\<Sum>i = 0 ..< k. y ! i * y ! i))"
  using assms(2)
proof (induction k)
  case 0
  then show ?case by simp
next
  case (Suc k)
  then have "k < length x" "k < length y" using assms(1) by simp_all
  with Suc show ?case by (simp add: cosine_step_def)
qed

lemma dot_self_nonneg: "0 \<le> dot_product a a"
  by (simp add: dot_product_def sum_nonneg)

lemma calculateCosineSimilarity_real:
  assumes "length x = length y"
  shows "calculateCosineSimilarity (map Num x) (map Num y) =
     jsdiv (Num (dot_product x y)) (Num (euclidean_norm x * euclidean_norm y))"
proof -
  have "\<not> dot_product x x < 0" "\<not> dot_product y y < 0"
    using dot_self_nonneg[of x] dot_self_nonneg[of y] by simp_all
  then show ?thesis
    using assms cosine_fold[OF assms, of "length x"]
    by (simp add: calculateCosineSimilarity_def dot_product_def euclidean_norm_def)
qed

lemma calculateCosineSimilarity_cosine:
  assumes "length x = length y" "euclidean_norm x \<noteq> 0" "euclidean_norm y \<noteq> 0"
  shows "calculateCosineSimilarity (map Num x) (map Num y) = Num (cosine_similarity x y)"
  using assms by (simp add: calculateCosineSimilarity_real cosine_similarity_def)

lemma cosine_similarity_self:
  assumes "euclidean_norm x \<noteq> 0"
  shows "cosine_similarity x x = 1"
proof -
  have "euclidean_norm x * euclidean_norm x = dot_product x x"
    using dot_self_nonneg[of x] by (simp add: euclidean_norm_def)
  moreover from assms have "dot_product x x \<noteq> 0" by (auto simp: euclidean_norm_def)
  ultimately show ?thesis by (simp add: cosine_similarity_def)
qed

lemma compareVoices_never_throws: "\<exists>v. compareVoices s nm pid1 pid2 = Inr v"
  by (simp add: compareVoices_def split: sum.splits)

lemma compareVoices_missing:
  assumes "\<not> isInitialized s \<or> map_of (native_voiceProfiles nm) pid1 = None \<or>
           map_of (native_voiceProfiles nm) pid2 = None"
  shows "compareVoices s nm pid1 pid2 = Inr (Num 0)"
  using assms
  by (auto simp: compareVoices_def native_compareVoiceProfiles_def split: sum.splits option.splits)

lemma compareVoices_present:
  assumes "isInitialized s" "map_of (native_voiceProfiles nm) pid1 = Some p1"
    "map_of (native_voiceProfiles nm) pid2 = Some p2"
  shows "compareVoices s nm pid1 pid2 = Inr (calculateCosineSimilarity (np_embeddings p1) (np_embeddings p2))"
  using assms by (simp add: compareVoices_def native_compareVoiceProfiles_def)

text \<open>
  What \<open>compareVoices\<close> computes. It never throws. It gives 0 when the service is not
  initialised or one of the profiles is missing in the native module. For two profiles
  whose embeddings are vectors of reals it gives 0 when the lengths differ, and the
  cosine similarity when the lengths agree and neither norm is 0; so a profile whose
  embedding has a norm other than 0 compares to itself with 1.
\<close>

lemma compareVoices_cosine:
  "(\<exists>v. compareVoices s nm pid1 pid2 = Inr v) \<and>
   (\<not> isInitialized s \<or> map_of (native_voiceProfiles nm) pid1 = None \<or>
      map_of (native_voiceProfiles nm) pid2 = None \<longrightarrow>
      compareVoices s nm pid1 pid2 = Inr (Num 0)) \<and>
   (isInitialized s \<and> map_of (native_voiceProfiles nm) pid1 = Some p1 \<and>
      map_of (native_voiceProfiles nm) pid2 = Some p2 \<and>
      np_embeddings p1 = map Num a \<and> np_embeddings p2 = map Num b \<longrightarrow>
      (length a \<noteq> length b \<longrightarrow> compareVoices s nm pid1 pid2 = Inr (Num 0)) \<and>
      (length a = length b \<and> euclidean_norm a \<noteq> 0 \<and> euclidean_norm b \<noteq> 0 \<longrightarrow>
         compareVoices s nm pid1 pid2 = Inr (Num (cosine_similarity a b))) \<and>
      (euclidean_norm a \<noteq> 0 \<longrightarrow> compareVoices s nm pid1 pid1 = Inr (Num 1)))"
proof -
  have one: "\<exists>v. compareVoices s nm pid1 pid2 = Inr v" by (rule compareVoices_never_throws)
  have two: "\<not> isInitialized s \<or> map_of (native_voiceProfiles nm) pid1 = None \<or>
      map_of (native_voiceProfiles nm) pid2 = None \<longrightarrow>
      compareVoices s nm pid1 pid2 = Inr (Num 0)"
    using compareVoices_missing by blast
  have three: "(length a \<noteq> length b \<longrightarrow> compareVoices s nm pid1 pid2 = Inr (Num 0)) \<and>
      (length a = length b \<and> euclidean_norm a \<noteq> 0 \<and> euclidean_norm b \<noteq> 0 \<longrightarrow>
         compareVoices s nm pid1 pid2 = Inr (Num (cosine_similarity a b))) \<and>
      (euclidean_norm a \<noteq> 0 \<longrightarrow> compareVoices s nm pid1 pid1 = Inr (Num 1))"
    if h: "isInitialized s" "map_of (native_voiceProfiles nm) pid1 = Some p1"
      "map_of (native_voiceProfiles nm) pid2 = Some p2"
      "np_embeddings p1 = map Num a" "np_embeddings p2 = map Num b"
  proof -
    have c: "compareVoices s nm pid1 pid2 = Inr (calculateCosineSimilarity (map Num a) (map Num b))"
      using compareVoices_present[OF h(1,2,3)] h(4,5) by simp
    have d: "compareVoices s nm pid1 pid1 = Inr (calculateCosineSimilarity (map Num a) (map Num a))"
      using compareVoices_present[OF h(1,2,2)] h(4) by simp
    have "length a \<noteq> length b \<longrightarrow> compareVoices s nm pid1 pid2 = Inr (Num 0)"
      by (simp add: c calculateCosineSimilarity_def)
    moreover have "length a = length b \<and> euclidean_norm a \<noteq> 0 \<and> euclidean_norm b \<noteq> 0 \<longrightarrow>
         compareVoices s nm pid1 pid2 = Inr (Num (cosine_similarity a b))"
      by (simp add: c calculateCosineSimilarity_cosine)
    moreover have "euclidean_norm a \<noteq> 0 \<longrightarrow> compareVoices s nm pid1 pid1 = Inr (Num 1)"
      by (simp add: d calculateCosineSimilarity_cosine cosine_similarity_self)
    ultimately show ?thesis by blast
  qed
  from one two three show ?thesis by blast
qed

lemma dot_34: "dot_product [3, 4] [3, 4] = 25" "dot_product [4, 3] [4, 3] = 25"
  "dot_product [3, 4] [4, 3] = 24"
  by (simp_all add: dot_product_def numeral_2_eq_2)

lemma norm_34: "euclidean_norm [3, 4] = 5" "euclidean_norm [4, 3] = 5"
proof -
  have "sqrt 25 = sqrt (5 ^ 2)" by simp
  also have "\<dots> = 5" by (simp only: real_sqrt_abs abs_numeral)
  finally show "euclidean_norm [3, 4] = 5" "euclidean_norm [4, 3] = 5"
    by (simp_all add: euclidean_norm_def dot_34)
qed

lemma compareVoices_cosine_example:
  "isInitialized demo_service \<and>
   map_of (native_voiceProfiles demo_native_two) ''nobody'' = None \<and>
   compareVoices demo_service demo_native_two ''x'' ''nobody'' = Inr (Num 0) \<and>
   compareVoices demo_service demo_native_two ''x'' ''y'' = Inr (Num (24 / 25)) \<and>
   compareVoices demo_service demo_native_two ''x'' ''x'' = Inr (Num 1)"
proof -
  have i: "isInitialized demo_service"
    by (simp add: demo_service_def idle_service_def new_service_def)
  have n: "map_of (native_voiceProfiles demo_native_two) ''nobody'' = None"
    by (simp add: demo_native_two_def)
  have x: "map_of (native_voiceProfiles demo_native_two) ''x'' =
      Some \<lparr> np_name = ''x'', np_embeddings = [Num 3, Num 4], np_audioSamples = [] \<rparr>"
    and y: "map_of (native_voiceProfiles demo_native_two) ''y'' =
      Some \<lparr> np_name = ''y'', np_embeddings = [Num 4, Num 3], np_audioSamples = [] \<rparr>"
    by (simp_all add: demo_native_two_def)
  have cs: "cosine_similarity [3, 4] [4, 3] = 24 / 25"
    by (simp add: cosine_similarity_def dot_34 norm_34)
  have a: "compareVoices demo_service demo_native_two ''x'' ''nobody'' = Inr (Num 0)"
    using n compareVoices_cosine[of demo_service demo_native_two "''x''" "''nobody''"] by blast
  have b: "compareVoices demo_service demo_native_two ''x'' ''y'' = Inr (Num (24 / 25)) \<and>
           compareVoices demo_service demo_native_two ''x'' ''x'' = Inr (Num 1)"
    using i x y cs norm_34
      compareVoices_cosine[of demo_service demo_native_two "''x''" "''y''"
        "\<lparr> np_name = ''x'', np_embeddings = [Num 3, Num 4], np_audioSamples = [] \<rparr>"
        "\<lparr> np_name = ''y'', np_embeddings = [Num 4, Num 3], np_audioSamples = [] \<rparr>"
        "[3, 4]" "[4, 3]"]
    by simp
  from i n a b show ?thesis by simp
qed

text \<open>
  Claim C4 against the code. A profile created without samples has the empty
  embedding, in the service and in the native module. Comparing it with itself goes
  through the loop of \<open>calculateCosineSimilarity\<close> no times and divides 0 by 0: the
  result is NaN, not 0. The check of the lengths, which returns 0, does not cover
  vectors of norm 0.
\<close>

theorem compareVoices_empty_embedding_is_NaN:
  "fst (createVoiceProfile demo_extract ''1'' 0 demo_service demo_native ''n'' [] None)
     = Inr (created_profile [] []) \<and>
   isInitialized (fst (snd (createVoiceProfile demo_extract ''1'' 0 demo_service demo_native ''n'' [] None))) \<and>
   map_of (native_voiceProfiles
            (snd (snd (createVoiceProfile demo_extract ''1'' 0 demo_service demo_native ''n'' [] None))))
        ''profile_1''
     = Some \<lparr> np_name = ''n'', np_embeddings = [], np_audioSamples = [] \<rparr> \<and>
   compareVoices
      (fst (snd (createVoiceProfile demo_extract ''1'' 0 demo_service demo_native ''n'' [] None)))
      (snd (snd (createVoiceProfile demo_extract ''1'' 0 demo_service demo_native ''n'' [] None)))
      ''profile_1'' ''profile_1''
     = Inr NaN"
  by (simp add: createVoiceProfile_def native_createVoiceProfile_def demo_service_def
      idle_service_def new_service_def demo_native_def created_profile_def Let_def
      averageEmbeddings_Nil compareVoices_def native_compareVoiceProfiles_def
      calculateCosineSimilarity_def)

section \<open>Temporary files of the real-time cycles\<close>

text \<open>
  On the path that succeeds, \<open>processRealTimeAudio\<close> has deleted its temporary file;
  when the translation fails the file it wrote is still there.
\<close>

lemma processRealTimeAudio_success_removes:
  assumes "processRealTimeAudio sm model now tmp files chunk src tgt = (Some r, files')"
  shows "\<not> file_exists files' (temp_audio_path tmp chunk)"
  using assms
  by (auto simp: processRealTimeAudio_def Let_def unlink_def file_exists_def delete_conv'
      split: sum.splits prod.splits option.splits)

lemma processRealTimeAudio_failure_keeps:
  assumes "translateSpeechToSpeech sm model now (AList.update (temp_audio_path tmp chunk) (chunk_data chunk) files)
             (temp_audio_path tmp chunk) src tgt = Inl e"
  shows "processRealTimeAudio sm model now tmp files chunk src tgt =
           (None, AList.update (temp_audio_path tmp chunk) (chunk_data chunk) files) \<and>
         file_exists (snd (processRealTimeAudio sm model now tmp files chunk src tgt)) (temp_audio_path tmp chunk)"
  using assms
  by (simp add: processRealTimeAudio_def Let_def writeFile_def file_exists_def update_conv')

text \<open>
  Claim C5 against the code. With a translation service that was never initialised,
  \<open>processRealTimeAudio\<close> writes the chunk to its temporary file, the translation
  throws, and the call returns \<open>null\<close> with the file in place. With a cloning model
  that rejects, \<open>processRealTimeVoiceCloning\<close> does the same with its file. Both
  have their \<open>unlink\<close> inside the \<open>try\<close> block, after the call that fails.
\<close>

theorem realtime_temp_file_survives_failure:
  "processRealTimeAudio uninitialized_seamless model 0 ''/tmp'' [] demo_chunk ''en'' ''es''
     = (None, [(''/tmp/temp_audio_c1.wav'', ''AAAA'')]) \<and>
   file_exists (snd (processRealTimeAudio uninitialized_seamless model 0 ''/tmp'' [] demo_chunk ''en'' ''es''))
     (temp_audio_path ''/tmp'' demo_chunk) \<and>
   processRealTimeVoiceCloning rejecting_clone await_promise ''/tmp'' demo_service [] demo_chunk ''hola'' ''es'' None
     = (None, demo_service, [(''/tmp/temp_voice_c1.wav'', ''AAAA'')]) \<and>
   file_exists (snd (snd (processRealTimeVoiceCloning rejecting_clone await_promise ''/tmp'' demo_service []
       demo_chunk ''hola'' ''es'' None)))
     (temp_voice_path ''/tmp'' demo_chunk)"
  by (simp add: processRealTimeAudio_def translateSpeechToSpeech_def uninitialized_seamless_def
      writeFile_def temp_audio_path_def demo_chunk_def file_exists_def Let_def
      processRealTimeVoiceCloning_def cloneVoiceFromSample_def rejecting_clone_def
      temp_voice_path_def demo_service_def idle_service_def new_service_def)

section \<open>The fallback of the text translation\<close>

lemma translateText_primary_confidence:
  "openai t src tgt = Inr tr \<Longrightarrow> translateText openai now t src tgt = Inr r \<Longrightarrow> confidence r = 95 / 100"
  by (auto simp: translateText_def)

text \<open>
  Claim C7. When the primary backend of \<open>translateText\<close> fails, the result is the one
  of the fallback \<open>translateWithGoogle\<close>: it carries the source and target language
  asked for and the text of the fallback, and its confidence is below the confidence of
  every result that the primary backend produces.
\<close>

theorem fallback_translation_result:
  assumes "openai t src tgt = Inl e"
  shows "\<exists>r. translateText openai now t src tgt = Inr r \<and>
             translateWithGoogle now t src tgt = Inr r \<and>
             sourceLanguage r = src \<and> targetLanguage r = tgt \<and>
             translatedText r = lookup_or mockTranslations (toLowerCase t) (''[Translated: '' @ t @ '']'') \<and>
             (\<forall>openai' now' t' src' tgt' tr r0.
                openai' t' src' tgt' = Inr tr \<and> translateText openai' now' t' src' tgt' = Inr r0 \<longrightarrow>
                confidence r < confidence r0)"
proof -
  let ?r = "\<lparr> originalText = t,
           translatedText = lookup_or mockTranslations (toLowerCase t) (''[Translated: '' @ t @ '']''),
           sourceLanguage = src, targetLanguage = tgt, confidence = 85 / 100, timestamp = now \<rparr>"
  have g: "translateWithGoogle now t src tgt = Inr ?r" by (simp add: translateWithGoogle_def)
  have tt: "translateText openai now t src tgt = Inr ?r" using assms g by (simp add: translateText_def)
  have c: "\<forall>openai' now' t' src' tgt' tr r0.
        openai' t' src' tgt' = Inr tr \<and> translateText openai' now' t' src' tgt' = Inr r0 \<longrightarrow>
        confidence ?r < confidence r0"
    using translateText_primary_confidence by fastforce
  from g tt c show ?thesis by simp
qed

lemma toLowerCase_hello: "toLowerCase ''hello'' = ''hello''"
  by (simp add: toLowerCase_def)

theorem fallback_translation_result_witness:
  "failing_openai ''hello'' ''en'' ''es'' = Inl (Error ''Network request failed'') \<and>
   translateText failing_openai 0 ''hello'' ''en'' ''es'' = Inr hola_result \<and>
   translatedText hola_result = Str ''hola'' \<and> sourceLanguage hola_result = ''en'' \<and>
   targetLanguage hola_result = ''es'' \<and> confidence hola_result < 95 / 100"
proof -
  have h: "failing_openai ''hello'' ''en'' ''es'' = Inl (Error ''Network request failed'')"
    by (simp add: failing_openai_def)
  have l: "lookup_or mockTranslations (toLowerCase ''hello'') (''[Translated: '' @ ''hello'' @ '']'') = Str ''hola''"
    by (simp add: toLowerCase_hello lookup_or_def mockTranslations_def)
  from fallback_translation_result[of failing_openai "''hello''" "''en''" "''es''" "Error ''Network request failed''" 0, OF h]
  obtain r where
    r: "translateText failing_openai 0 ''hello'' ''en'' ''es'' = Inr r"
    "translateWithGoogle 0 ''hello'' ''en'' ''es'' = Inr r"
    "sourceLanguage r = ''en''" "targetLanguage r = ''es''"
    "translatedText r = lookup_or mockTranslations (toLowerCase ''hello'') (''[Translated: '' @ ''hello'' @ '']'')"
    by blast
  from r(2) l have "r = hola_result" by (simp add: translateWithGoogle_def hola_result_def)
  with h r show ?thesis by (simp add: hola_result_def)
qed

text \<open>
  \<open>translateVoice\<close> of the voice service has no second backend: what it calls the
  fallback is \<open>translateSpeechToSpeech\<close> of the same on-device service. When that
  service is not ready the call fails, so no translation comes out of this path.
\<close>

lemma translateVoice_unready:
  assumes "\<not> isReady sm"
  shows "\<exists>e. translateVoice vs sm model now docs millis files path src tgt = Inl e"
  using assms
  by (auto simp: translateVoice_def translateVoiceWithAPI_def translateSpeechToSpeech_def
      native_translateSpeechToSpeech_def isReady_def Let_def split: if_splits)

section \<open>The translation loop of the call screen: overlapping cycles\<close>

text \<open>
  The guard of the interval callback reads the \<open>isRecording\<close> of the first render,
  which is \<open>false\<close> for good: whenever the recorder starts, a tick starts a capture,
  whatever the state of the screen.
\<close>

lemma interval_callback_first_render:
  "recorder_starts (voice (interval_callback first_render_isRecording True cs))
     = Suc (recorder_starts (voice cs))"
  by (simp add: interval_callback_def startRecording_def stopRecording_def
      first_render_isRecording_def Let_def)

text \<open>
  Claim C6 against the code. After the mount, a tick starts the first capture; its
  timer fires and the cycle goes on to translate; the next tick, with that cycle still
  under way, starts a second capture. Two ticks before the first timer fires do the
  same, and the second \<open>startRecording\<close> stops the first recording. The recorder was
  started twice and no cycle has finished.
\<close>

theorem interval_tick_starts_overlapping_capture:
  "call_run [Tick True, TimeoutFired, Tick True] =
     \<lparr> cs_isRecording = True,
       voice = \<lparr> useNativeProcessing = True, vs_isRecording = True, recorder_starts = 2,
                 recorder_stops = 1 \<rparr>,
       capturing = 1, translating = 1 \<rparr> \<and>
   call_run [Tick True, Tick True] =
     \<lparr> cs_isRecording = True,
       voice = \<lparr> useNativeProcessing = True, vs_isRecording = True, recorder_starts = 2,
                 recorder_stops = 1 \<rparr>,
       capturing = 2, translating = 0 \<rparr>"
  by (simp add: call_run_def interval_callback_def timeout_fired_def startRecording_def
      stopRecording_def mounted_call_screen_def first_render_isRecording_def Let_def)

end
